theory Spec2Isabelle
  imports Main "HOL-Library.AList"
begin

section \<open>Inoreader MCP server: the authenticated API client and its tools\<close>

text \<open>
  A shallow embedding of \<^verbatim>\<open>src/client.ts\<close> (class \<^verbatim>\<open>InoreaderClient\<close>), of the
  parts of \<^verbatim>\<open>auth.ts\<close> and \<^verbatim>\<open>keychain.ts\<close> it calls, and of the tool handlers
  and \<^verbatim>\<open>formatArticle\<close> of \<^verbatim>\<open>index.ts\<close>.

  Conventions.
  \<^item> A JavaScript string is a \<^typ>\<open>string\<close>; one \<^typ>\<open>char\<close> stands for one code
    unit, so \<^verbatim>\<open>s.length\<close> is \<^term>\<open>length s\<close> and \<^verbatim>\<open>s.slice(0, n)\<close> is
    \<^term>\<open>take n s\<close>. A string is falsy exactly when it is empty.
  \<^item> A JavaScript number is an \<^typ>\<open>int\<close> (counts, timestamps, lifetimes) or a
    \<^typ>\<open>nat\<close> (HTTP status); fractional numbers are outside the model.
  \<^item> An optional value is an \<^typ>\<open>'a option\<close>, \<^term>\<open>None\<close> for \<^verbatim>\<open>undefined\<close>.
  \<^item> A rejected promise or a thrown exception is \<^term>\<open>Inl\<close> of an \<open>error\<close>.
  \<^item> The instance fields of the client, the keychain, the process environment and the
    two upstream endpoints are explicit state, passed in and returned.
\<close>

subsection \<open>Strings and numbers of the JavaScript runtime\<close>

text \<open>\<^verbatim>\<open>s.startsWith(p)\<close>.\<close>

fun starts_with :: "string \<Rightarrow> string \<Rightarrow> bool" where
  "starts_with s [] = True"
| "starts_with [] (p # ps) = False"
| "starts_with (c # cs) (p # ps) = (c = p \<and> starts_with cs ps)"

text \<open>\<^verbatim>\<open>s.includes(needle)\<close> on strings: \<open>needle\<close> occurs in \<open>s\<close> as a contiguous,
  case-sensitive substring.\<close>

fun str_includes :: "string \<Rightarrow> string \<Rightarrow> bool" where
  "str_includes [] needle = (needle = [])"
| "str_includes (c # cs) needle = (starts_with (c # cs) needle \<or> str_includes cs needle)"

text \<open>\<^verbatim>\<open>String(n)\<close> for a non-negative integer: its decimal digits.\<close>

fun string_of_nat :: "nat \<Rightarrow> string" where
  "string_of_nat n =
     (if n < 10 then [''0123456789'' ! n]
      else string_of_nat (n div 10) @ [''0123456789'' ! (n mod 10)])"

declare string_of_nat.simps [simp del]

text \<open>\<^verbatim>\<open>String(n)\<close> for an integer.\<close>

definition string_of_int :: "int \<Rightarrow> string" where
  "string_of_int i = (if i < 0 then CHR ''-'' # string_of_nat (nat (- i)) else string_of_nat (nat i))"

text \<open>\<^verbatim>\<open>encodeURIComponent\<close> on code units below 256: the unreserved characters stay,
  every other code unit becomes the \<open>%XX\<close> escapes of its UTF-8 bytes.\<close>

definition unreserved :: "char \<Rightarrow> bool" where
  "unreserved c \<longleftrightarrow>
     c \<in> set ''ABCDEFGHIJKLMNOPQRSTUVWXYZabcdefghijklmnopqrstuvwxyz0123456789-_.!~*'()''"

definition hex_byte :: "nat \<Rightarrow> string" where
  "hex_byte b = [CHR ''%'', ''0123456789ABCDEF'' ! (b div 16 mod 16), ''0123456789ABCDEF'' ! (b mod 16)]"

definition encode_unit :: "char \<Rightarrow> string" where
  "encode_unit c =
     (let n = (of_char c :: nat) in
      if unreserved c then [c]
      else if n < 128 then hex_byte n
      else hex_byte (192 + n div 64) @ hex_byte (128 + n mod 64))"

definition encodeURIComponent :: "string \<Rightarrow> string" where
  "encodeURIComponent s = concat (map encode_unit s)"

subsection \<open>JSON values and errors\<close>

datatype json =
    JNull
  | JBool bool
  | JNum int
  | JStr string
  | JArr "json list"
  | JObj "(string \<times> json) list"

text \<open>
  The exceptions of \<^verbatim>\<open>errors.ts\<close> and of the runtime. \<^verbatim>\<open>AuthenticationError\<close>
  extends \<^verbatim>\<open>InoreaderClientError\<close>, which extends \<^verbatim>\<open>Error\<close>. \<open>RuntimeError name msg\<close>
  is an exception raised by the runtime itself (a \<^verbatim>\<open>TypeError\<close> of \<^verbatim>\<open>fetch\<close>, a
  \<^verbatim>\<open>SyntaxError\<close> of the JSON parser, a failed shell command).
\<close>

datatype error =
    AuthenticationError string
  | InoreaderClientError string
  | Error string
  | RuntimeError string string

fun message :: "error \<Rightarrow> string" where
  "message (AuthenticationError m) = m"
| "message (InoreaderClientError m) = m"
| "message (Error m) = m"
| "message (RuntimeError n m) = m"

fun error_name :: "error \<Rightarrow> string" where
  "error_name (AuthenticationError m) = ''AuthenticationError''"
| "error_name (InoreaderClientError m) = ''InoreaderClientError''"
| "error_name (Error m) = ''Error''"
| "error_name (RuntimeError n m) = n"

text \<open>\<^verbatim>\<open>e instanceof InoreaderClientError\<close>.\<close>

fun is_client_error :: "error \<Rightarrow> bool" where
  "is_client_error (AuthenticationError m) = True"
| "is_client_error (InoreaderClientError m) = True"
| "is_client_error e = False"

text \<open>\<^verbatim>\<open>String(e)\<close> of an error, as in a template literal.\<close>

definition error_to_string :: "error \<Rightarrow> string" where
  "error_to_string e =
     (if message e = [] then error_name e
      else if error_name e = [] then message e
      else error_name e @ '': '' @ message e)"

subsection \<open>Articles (\<^verbatim>\<open>types.ts\<close>, \<^verbatim>\<open>formatArticle\<close>)\<close>

record ItemOrigin =
  origin_streamId :: string
  origin_title :: string
  origin_htmlUrl :: "string option"

record ItemSummary =
  direction :: string
  content :: string

record ItemCanonical =
  href :: string

record StreamItem =
  item_id :: string
  crawlTimeMsec :: "string option"
  timestampUsec :: "string option"
  published :: "int option"
  updated :: "int option"
  item_title :: string
  canonical :: "ItemCanonical list option"
  alternate :: "ItemCanonical list option"
  categories :: "string list"
  origin :: "ItemOrigin option"
  summary :: "ItemSummary option"
  author :: "string option"

text \<open>The object \<^verbatim>\<open>formatArticle\<close> builds; \<open>feedTitle\<close> and \<open>article_summary\<close> are
  \<^term>\<open>None\<close> when the key is not set.\<close>

record article =
  article_id :: string
  article_title :: string
  url :: string
  article_author :: string
  article_published :: int
  isRead :: bool
  isStarred :: bool
  feedTitle :: "string option"
  article_summary :: "string option"

text \<open>\<^verbatim>\<open>links?.[0]?.href\<close>, with \<^term>\<open>None\<close> for \<^verbatim>\<open>undefined\<close>.\<close>

definition first_href :: "ItemCanonical list option \<Rightarrow> string option" where
  "first_href links =
     (case links of None \<Rightarrow> None | Some [] \<Rightarrow> None | Some (l # ls) \<Rightarrow> Some (href l))"

definition getArticleUrl :: "StreamItem \<Rightarrow> string" where
  "getArticleUrl item =
     (let alt = (case first_href (alternate item) of None \<Rightarrow> [] | Some a \<Rightarrow> a) in
      case first_href (canonical item) of
        None \<Rightarrow> alt
      | Some h \<Rightarrow> if h = [] then alt else h)"

definition formatArticle :: "StreamItem \<Rightarrow> article" where
  "formatArticle item =
     \<lparr> article_id = item_id item,
       article_title = item_title item,
       url = getArticleUrl item,
       article_author = (case author item of None \<Rightarrow> [] | Some a \<Rightarrow> a),
       article_published = (case published item of None \<Rightarrow> 0 | Some p \<Rightarrow> p),
       isRead = (''user/-/state/com.google/read'' \<in> set (categories item)),
       isStarred = (''user/-/state/com.google/starred'' \<in> set (categories item)),
       feedTitle = (case origin item of None \<Rightarrow> None | Some og \<Rightarrow> Some (origin_title og)),
       article_summary =
         (case summary item of
            None \<Rightarrow> None
          | Some s \<Rightarrow>
              if content s = [] then None
              else if length (content s) > 500 then Some (take 500 (content s) @ ''...'')
              else Some (content s)) \<rparr>"

subsection \<open>The session, the keychain and the upstream service\<close>

record Config =
  appId :: string
  appKey :: string
  config_accessToken :: string
  config_refreshToken :: "string option"
  apiBaseUrl :: string
  oauthBaseUrl :: string

text \<open>The instance fields of \<^verbatim>\<open>InoreaderClient\<close>.\<close>

record InoreaderClient =
  config :: Config
  accessToken :: string
  hasRetriedAuth :: bool

text \<open>\<^verbatim>\<open>TokenData\<close> of \<^verbatim>\<open>keychain.ts\<close>: the persisted token pair.\<close>

record TokenData =
  stored_accessToken :: string
  stored_refreshToken :: string
  stored_expiresAt :: "int option"

text \<open>\<^verbatim>\<open>TokenResponse\<close> of \<^verbatim>\<open>auth.ts\<close>; \<open>refresh_token\<close> is \<^term>\<open>None\<close> when the
  token endpoint leaves it out.\<close>

record TokenResponse =
  access_token :: string
  refresh_token :: "string option"
  expires_in :: int
  token_type :: string

text \<open>
  A request as \<^verbatim>\<open>fetch\<close> receives it. The URL is kept in two parts, the string
  \<open>base + endpoint\<close> and the list of query parameters; a form-urlencoded body is kept as
  its ordered list of fields. The percent-encoding done by \<^verbatim>\<open>URL\<close> and
  \<^verbatim>\<open>URLSearchParams.toString\<close> is left out, and the base URL is taken to parse.
\<close>

record http_request =
  req_method :: string
  req_url :: string
  req_query :: "(string \<times> string) list"
  req_headers :: "(string \<times> string) list"
  req_body :: "(string \<times> string) list option"

text \<open>
  A response: \<open>content_type\<close> is \<^verbatim>\<open>headers.get("content-type")\<close>, \<open>body_text\<close> is what
  \<^verbatim>\<open>response.text()\<close> resolves to and \<open>body_json\<close> is the outcome of
  \<^verbatim>\<open>response.json()\<close> (\<^term>\<open>Inl\<close> when the body does not parse).
\<close>

record 'j http_response =
  status :: nat
  statusText :: string
  content_type :: "string option"
  body_text :: string
  body_json :: "error + 'j"

text \<open>\<^verbatim>\<open>response.ok\<close> of the Fetch standard: the status is in the range 200 to 299.\<close>

definition ok :: "'j http_response \<Rightarrow> bool" where
  "ok r \<longleftrightarrow> 200 \<le> status r \<and> status r \<le> 299"

datatype 'r fetch_outcome = Rejects error | Responds 'r

datatype platform = Darwin | Linux | OtherPlatform string

text \<open>What the process does to the outside: requests to the REST API, requests to the
  OAuth token endpoint, and calls of \<^verbatim>\<open>loadTokens\<close> and \<^verbatim>\<open>saveTokens\<close>.\<close>

datatype event =
    Fetch http_request
  | TokenFetch http_request
  | LoadTokens
  | SaveTokens TokenData

text \<open>
  The outside world of one process. \<open>upstream n req\<close> is what the REST API answers to
  request \<open>req\<close> when \<open>n\<close> requests were sent to it before; \<open>token_endpoint\<close> likewise
  for the OAuth token endpoint. \<open>keychain\<close> is the secret as \<^verbatim>\<open>loadTokens\<close> decodes it
  (\<^term>\<open>None\<close> when there is none or it is not JSON). \<open>keychain_delete_ok\<close> and
  \<open>keychain_store_ok\<close> say whether the shell commands that delete and store the secret
  succeed, \<open>shell_error\<close> is what a failing one throws. \<open>now\<close> is \<^verbatim>\<open>Date.now()\<close>.
  \<open>events\<close> records what was done, oldest first.
\<close>

record world =
  upstream :: "nat \<Rightarrow> http_request \<Rightarrow> json http_response fetch_outcome"
  token_endpoint :: "nat \<Rightarrow> http_request \<Rightarrow> TokenResponse http_response fetch_outcome"
  platform :: platform
  keychain :: "TokenData option"
  keychain_delete_ok :: bool
  keychain_store_ok :: bool
  shell_error :: error
  env :: "string \<Rightarrow> string option"
  now :: int
  events :: "event list"

fun api_request_of :: "event \<Rightarrow> http_request option" where
  "api_request_of (Fetch r) = Some r"
| "api_request_of e = None"

fun token_request_of :: "event \<Rightarrow> http_request option" where
  "token_request_of (TokenFetch r) = Some r"
| "token_request_of e = None"

fun saved_of :: "event \<Rightarrow> TokenData option" where
  "saved_of (SaveTokens t) = Some t"
| "saved_of e = None"

text \<open>The requests sent to the REST API so far, the requests sent to the token endpoint,
  the token pairs handed to \<^verbatim>\<open>saveTokens\<close>, and the number of \<^verbatim>\<open>loadTokens\<close> calls.\<close>

definition api_requests :: "world \<Rightarrow> http_request list" where
  "api_requests w = List.map_filter api_request_of (events w)"

definition token_requests :: "world \<Rightarrow> http_request list" where
  "token_requests w = List.map_filter token_request_of (events w)"

definition saves :: "world \<Rightarrow> TokenData list" where
  "saves w = List.map_filter saved_of (events w)"

definition loads :: "world \<Rightarrow> nat" where
  "loads w = length (filter (\<lambda>e. e = LoadTokens) (events w))"

definition record_event :: "event \<Rightarrow> world \<Rightarrow> world" where
  "record_event e w = w\<lparr>events := events w @ [e]\<rparr>"

text \<open>\<^verbatim>\<open>fetch\<close> to the REST API and to the token endpoint.\<close>

definition fetch :: "world \<Rightarrow> http_request \<Rightarrow> json http_response fetch_outcome \<times> world" where
  "fetch w req = (upstream w (length (api_requests w)) req, record_event (Fetch req) w)"

definition token_fetch ::
  "world \<Rightarrow> http_request \<Rightarrow> TokenResponse http_response fetch_outcome \<times> world" where
  "token_fetch w req =
     (token_endpoint w (length (token_requests w)) req, record_event (TokenFetch req) w)"

subsection \<open>The secret store (\<^verbatim>\<open>keychain.ts\<close>)\<close>

text \<open>\<^verbatim>\<open>loadTokens\<close>: reads the secret on macOS and Linux, and gives \<^verbatim>\<open>null\<close> on any
  other platform. It never throws.\<close>

definition loadTokens :: "world \<Rightarrow> TokenData option \<times> world" where
  "loadTokens w =
     ((case platform w of
         Darwin \<Rightarrow> keychain w
       | Linux \<Rightarrow> keychain w
       | OtherPlatform p \<Rightarrow> None),
      record_event LoadTokens w)"

text \<open>\<^verbatim>\<open>saveTokens\<close>. On macOS (\<^verbatim>\<open>macOSSet\<close>) the old entry is deleted first, a failure
  of that being ignored, and then the new one is added; on Linux (\<^verbatim>\<open>linuxSet\<close>) one
  command stores it; elsewhere it throws.\<close>

definition saveTokens :: "world \<Rightarrow> TokenData \<Rightarrow> (error + unit) \<times> world" where
  "saveTokens w tokens =
     (let w0 = record_event (SaveTokens tokens) w in
      case platform w of
        Darwin \<Rightarrow>
          (let w1 = (if keychain_delete_ok w then w0\<lparr>keychain := None\<rparr> else w0) in
           if keychain_store_ok w then (Inr (), w1\<lparr>keychain := Some tokens\<rparr>)
           else (Inl (shell_error w), w1))
      | Linux \<Rightarrow>
          if keychain_store_ok w then (Inr (), w0\<lparr>keychain := Some tokens\<rparr>)
          else (Inl (shell_error w), w0)
      | OtherPlatform p \<Rightarrow>
          (Inl (Error (''Unsupported platform: '' @ p @ ''. Use environment variables instead.'')),
           w0))"

subsection \<open>The token provider (\<^verbatim>\<open>auth.ts\<close>)\<close>

definition OAUTH_BASE_URL :: string where
  "OAUTH_BASE_URL = ''https://www.inoreader.com/oauth2''"

text \<open>Truthiness of an optional string: defined and not empty.\<close>

definition truthy :: "string option \<Rightarrow> bool" where
  "truthy v \<longleftrightarrow> v \<noteq> None \<and> v \<noteq> Some []"

text \<open>\<^verbatim>\<open>v ?? d\<close>.\<close>

definition nullish :: "'a option \<Rightarrow> 'a \<Rightarrow> 'a" where
  "nullish v d = (case v of None \<Rightarrow> d | Some x \<Rightarrow> x)"

definition getAuthConfig :: "world \<Rightarrow> error + string \<times> string" where
  "getAuthConfig w =
     (if \<not> truthy (env w ''INOREADER_APP_ID'') \<or> \<not> truthy (env w ''INOREADER_APP_KEY'')
      then Inl (Error (''INOREADER_APP_ID and INOREADER_APP_KEY environment variables are required.''
                       @ [CHR 0x0A]
                       @ ''Get your credentials at: https://www.inoreader.com/developers/''))
      else Inr (nullish (env w ''INOREADER_APP_ID'') [], nullish (env w ''INOREADER_APP_KEY'') []))"

definition refreshAccessToken :: "world \<Rightarrow> string \<Rightarrow> (error + TokenResponse) \<times> world" where
  "refreshAccessToken w refreshToken =
     (case getAuthConfig w of
        Inl e \<Rightarrow> (Inl e, w)
      | Inr (app_id, app_key) \<Rightarrow>
          (case token_fetch w
                  \<lparr> req_method = ''POST'',
                    req_url = OAUTH_BASE_URL @ ''/token'',
                    req_query = [],
                    req_headers = [(''Content-Type'', ''application/x-www-form-urlencoded'')],
                    req_body = Some [(''client_id'', app_id), (''client_secret'', app_key),
                                     (''grant_type'', ''refresh_token''),
                                     (''refresh_token'', refreshToken)] \<rparr> of
             (Rejects e, w1) \<Rightarrow> (Inl e, w1)
           | (Responds response, w1) \<Rightarrow>
               if \<not> ok response
               then (Inl (Error (''Token refresh failed: '' @ body_text response)), w1)
               else (body_json response, w1)))"

text \<open>\<^verbatim>\<open>newTokens.refresh_token || tokens.refreshToken\<close>.\<close>

definition new_or_carried :: "string option \<Rightarrow> string \<Rightarrow> string" where
  "new_or_carried new_token old_token = (if truthy new_token then nullish new_token [] else old_token)"

text \<open>\<^verbatim>\<open>getValidAccessToken\<close>; what it prints to the console is left out.\<close>

definition getValidAccessToken :: "world \<Rightarrow> (error + string) \<times> world" where
  "getValidAccessToken w =
     (if truthy (env w ''INOREADER_ACCESS_TOKEN'')
      then (Inr (nullish (env w ''INOREADER_ACCESS_TOKEN'') []), w)
      else
        case loadTokens w of
          (None, w1) \<Rightarrow>
            (Inl (Error (''Not authenticated. Run 'inoreader-mcp auth login' first, ''
                         @ ''or set INOREADER_ACCESS_TOKEN environment variable.'')), w1)
        | (Some tokens, w1) \<Rightarrow>
            (let isExpired =
                   (case stored_expiresAt tokens of
                      None \<Rightarrow> False
                    | Some e \<Rightarrow> e \<noteq> 0 \<and> e < now w1 + 5 * 60 * 1000) in
             if isExpired \<and> stored_refreshToken tokens \<noteq> [] then
               (case refreshAccessToken w1 (stored_refreshToken tokens) of
                  (Inl e, w2) \<Rightarrow>
                    (Inl (Error (''Failed to refresh token: '' @ error_to_string e
                                 @ ''. Run 'inoreader-mcp auth login' to re-authenticate.'')), w2)
                | (Inr newTokens, w2) \<Rightarrow>
                    (case saveTokens w2
                            \<lparr> stored_accessToken = access_token newTokens,
                              stored_refreshToken =
                                new_or_carried (refresh_token newTokens) (stored_refreshToken tokens),
                              stored_expiresAt = Some (now w2 + expires_in newTokens * 1000) \<rparr> of
                       (Inl e, w3) \<Rightarrow>
                         (Inl (Error (''Failed to refresh token: '' @ error_to_string e
                                      @ ''. Run 'inoreader-mcp auth login' to re-authenticate.'')), w3)
                     | (Inr u, w3) \<Rightarrow> (Inr (access_token newTokens), w3)))
             else (Inr (stored_accessToken tokens), w1)))"

subsection \<open>The API client (\<^verbatim>\<open>client.ts\<close>)\<close>

text \<open>\<^verbatim>\<open>tryRefreshToken\<close>: the token-refresh protocol. Every exception inside is caught
  and turned into \<^verbatim>\<open>false\<close>.\<close>

definition tryRefreshToken :: "InoreaderClient \<Rightarrow> world \<Rightarrow> bool \<times> InoreaderClient \<times> world" where
  "tryRefreshToken c w =
     (case loadTokens w of
        (None, w1) \<Rightarrow> (False, c, w1)
      | (Some tokens, w1) \<Rightarrow>
          if stored_refreshToken tokens = [] then (False, c, w1)
          else
            (case refreshAccessToken w1 (stored_refreshToken tokens) of
               (Inl e, w2) \<Rightarrow> (False, c, w2)
             | (Inr newTokens, w2) \<Rightarrow>
                 (case saveTokens w2
                         \<lparr> stored_accessToken = access_token newTokens,
                           stored_refreshToken =
                             new_or_carried (refresh_token newTokens) (stored_refreshToken tokens),
                           stored_expiresAt = Some (now w2 + expires_in newTokens * 1000) \<rparr> of
                    (Inl e, w3) \<Rightarrow> (False, c, w3)
                  | (Inr u, w3) \<Rightarrow> (True, c\<lparr>accessToken := access_token newTokens\<rparr>, w3))))"

text \<open>The \<open>body\<close> argument of \<^verbatim>\<open>request\<close>: a flat \<^verbatim>\<open>Record<string, string>\<close> or a
  pre-built \<^verbatim>\<open>URLSearchParams\<close>, which may repeat a field.\<close>

datatype form_body =
    RecordBody "(string \<times> string) list"
  | SearchParams "(string \<times> string) list"

text \<open>\<^verbatim>\<open>body instanceof URLSearchParams ? body.toString() : new URLSearchParams(body).toString()\<close>,
  as the list of fields.\<close>

fun form_fields :: "form_body \<Rightarrow> (string \<times> string) list" where
  "form_fields (SearchParams pairs) = pairs"
| "form_fields (RecordBody entries) = entries"

text \<open>What \<^verbatim>\<open>request\<close> returns on success: the decoded JSON body, \<^verbatim>\<open>undefined\<close>, or the
  raw text.\<close>

datatype reply = JsonBody json | Empty | TextBody string

text \<open>Lines 54 to 76 of \<^verbatim>\<open>request\<close>: the URL, the headers and the body handed to
  \<^verbatim>\<open>fetch\<close>. \<^verbatim>\<open>url.searchParams.set(key, value)\<close> is \<^term>\<open>AList.update\<close>.\<close>

definition build_request ::
  "InoreaderClient \<Rightarrow> string \<Rightarrow> string \<Rightarrow> (string \<times> string) list option \<Rightarrow> form_body option
   \<Rightarrow> http_request" where
  "build_request c method endpoint params body =
     \<lparr> req_method = method,
       req_url = apiBaseUrl (config c) @ endpoint,
       req_query =
         (case params of
            None \<Rightarrow> []
          | Some entries \<Rightarrow> fold (\<lambda>(key, v) q. AList.update key v q) entries []),
       req_headers =
         [(''Authorization'', ''Bearer '' @ accessToken c)]
         @ (if body \<noteq> None \<and> method = ''POST''
            then [(''Content-Type'', ''application/x-www-form-urlencoded'')] else []),
       req_body =
         (if body \<noteq> None \<and> method = ''POST'' then map_option form_fields body else None) \<rparr>"

definition AUTH_FAILED :: string where
  "AUTH_FAILED =
     ''Authentication failed. Token may be expired. Run 'bun run start auth login' to re-authenticate.''"

text \<open>\<^verbatim>\<open>request\<close>. The field \<^verbatim>\<open>this.hasRetriedAuth\<close> is read and written through the
  client that is passed in and returned.\<close>

function request ::
  "InoreaderClient \<Rightarrow> world \<Rightarrow> string \<Rightarrow> string \<Rightarrow> (string \<times> string) list option
   \<Rightarrow> form_body option \<Rightarrow> (error + reply) \<times> InoreaderClient \<times> world" where
  "request c w method endpoint params body =
     (case fetch w (build_request c method endpoint params body) of
        (Rejects e, w1) \<Rightarrow> (Inl e, c, w1)
      | (Responds response, w1) \<Rightarrow>
          if status response = 401 \<and> \<not> hasRetriedAuth c then
            (case tryRefreshToken (c\<lparr>hasRetriedAuth := True\<rparr>) w1 of
               (refreshed, c2, w2) \<Rightarrow>
                 if refreshed then request c2 w2 method endpoint params body
                 else (Inl (AuthenticationError AUTH_FAILED), c2, w2))
          else if status response = 401 then (Inl (AuthenticationError AUTH_FAILED), c, w1)
          else if status response = 403 then
            (Inl (AuthenticationError ''Access forbidden. API access requires Inoreader Pro.''), c, w1)
          else if \<not> ok response then
            (Inl (InoreaderClientError
                    (''API request failed: '' @ string_of_nat (status response) @ '' ''
                     @ statusText response)), c, w1)
          else
            (let c1 = c\<lparr>hasRetriedAuth := False\<rparr>;
                 contentType = nullish (content_type response) [] in
             if str_includes contentType ''application/json'' then
               (case body_json response of
                  Inl e \<Rightarrow> (Inl e, c1, w1)
                | Inr j \<Rightarrow> (Inr (JsonBody j), c1, w1))
             else if status response = 204 \<or> status response = 205 then (Inr Empty, c1, w1)
             else if body_text response = [] then (Inr Empty, c1, w1)
             else (Inr (TextBody (body_text response)), c1, w1)))"
  by pat_completeness auto
termination
  apply (relation "measure (\<lambda>(c, w, method, endpoint, params, body). if hasRetriedAuth c then 0 else 1)")
   apply simp
  apply (auto simp: tryRefreshToken_def split: prod.splits option.splits if_splits sum.splits)
  done

declare request.simps [simp del]

subsection \<open>The typed operations of the client\<close>

text \<open>\<^verbatim>\<open>await this.request<string>(...)\<close> in a method that returns \<^verbatim>\<open>Promise<void>\<close>: the
  value is dropped, an exception propagates.\<close>

definition void ::
  "(error + reply) \<times> InoreaderClient \<times> world \<Rightarrow> (error + unit) \<times> InoreaderClient \<times> world" where
  "void r = (case r of (Inl e, c, w) \<Rightarrow> (Inl e, c, w) | (Inr v, c, w) \<Rightarrow> (Inr (), c, w))"

definition getUserInfo :: "InoreaderClient \<Rightarrow> world \<Rightarrow> (error + reply) \<times> InoreaderClient \<times> world" where
  "getUserInfo c w = request c w ''GET'' ''/user-info'' None None"

definition getUnreadCounts :: "InoreaderClient \<Rightarrow> world \<Rightarrow> (error + reply) \<times> InoreaderClient \<times> world" where
  "getUnreadCounts c w = request c w ''GET'' ''/unread-count'' (Some [(''output'', ''json'')]) None"

definition getSubscriptions :: "InoreaderClient \<Rightarrow> world \<Rightarrow> (error + reply) \<times> InoreaderClient \<times> world" where
  "getSubscriptions c w =
     request c w ''GET'' ''/subscription/list'' (Some [(''output'', ''json'')]) None"

definition getTags :: "InoreaderClient \<Rightarrow> world \<Rightarrow> (error + reply) \<times> InoreaderClient \<times> world" where
  "getTags c w = request c w ''GET'' ''/tag/list'' (Some [(''output'', ''json'')]) None"

record stream_options =
  count :: "int option"
  continuation :: "string option"
  excludeTarget :: "string option"
  includeAllItems :: "bool option"

text \<open>The \<open>params\<close> object of \<^verbatim>\<open>getStreamContents\<close> (lines 158 to 171).\<close>

definition stream_params :: "stream_options \<Rightarrow> (string \<times> string) list" where
  "stream_params options =
     [(''output'', ''json''), (''n'', string_of_int (min (nullish (count options) 20) 1000))]
     @ (if truthy (continuation options) then [(''c'', nullish (continuation options) [])] else [])
     @ (if truthy (excludeTarget options) then [(''xt'', nullish (excludeTarget options) [])] else [])
     @ (if includeAllItems options = Some True then [(''it'', ''user/-/state/com.google/read'')]
        else [])"

definition getStreamContents ::
  "InoreaderClient \<Rightarrow> world \<Rightarrow> string \<Rightarrow> stream_options
   \<Rightarrow> (error + reply) \<times> InoreaderClient \<times> world" where
  "getStreamContents c w streamId options =
     request c w ''GET'' (''/stream/contents/'' @ encodeURIComponent streamId)
       (Some (stream_params options)) None"

text \<open>\<^verbatim>\<open>getStarredItems(count = 20)\<close> and \<^verbatim>\<open>getUnreadItems(count = 20)\<close>: the default
  applies when the argument is \<^verbatim>\<open>undefined\<close>.\<close>

definition getStarredItems ::
  "InoreaderClient \<Rightarrow> world \<Rightarrow> int option \<Rightarrow> (error + reply) \<times> InoreaderClient \<times> world" where
  "getStarredItems c w cnt =
     getStreamContents c w ''user/-/state/com.google/starred''
       \<lparr> count = Some (nullish cnt 20), continuation = None, excludeTarget = None,
         includeAllItems = Some True \<rparr>"

definition getUnreadItems ::
  "InoreaderClient \<Rightarrow> world \<Rightarrow> int option \<Rightarrow> (error + reply) \<times> InoreaderClient \<times> world" where
  "getUnreadItems c w cnt =
     getStreamContents c w ''user/-/state/com.google/reading-list''
       \<lparr> count = Some (nullish cnt 20), continuation = None,
         excludeTarget = Some ''user/-/state/com.google/read'', includeAllItems = None \<rparr>"

definition addSubscription ::
  "InoreaderClient \<Rightarrow> world \<Rightarrow> string \<Rightarrow> string option
   \<Rightarrow> (error + reply) \<times> InoreaderClient \<times> world" where
  "addSubscription c w feedUrl title =
     request c w ''POST'' ''/subscription/quickadd''
       (Some ([(''quickadd'', feedUrl)] @ (if truthy title then [(''t'', nullish title [])] else [])))
       None"

definition removeSubscription ::
  "InoreaderClient \<Rightarrow> world \<Rightarrow> string \<Rightarrow> (error + unit) \<times> InoreaderClient \<times> world" where
  "removeSubscription c w subscriptionId =
     void (request c w ''POST'' ''/subscription/edit'' None
             (Some (RecordBody [(''ac'', ''unsubscribe''), (''s'', subscriptionId)])))"

text \<open>\<^verbatim>\<open>markAsRead(itemIds?, streamId?, timestamp?)\<close>. A timestamp is truthy when it is
  given and not zero.\<close>

definition markAsRead ::
  "InoreaderClient \<Rightarrow> world \<Rightarrow> string list option \<Rightarrow> string option \<Rightarrow> int option
   \<Rightarrow> (error + unit) \<times> InoreaderClient \<times> world" where
  "markAsRead c w itemIds streamId timestamp =
     (if itemIds \<noteq> None \<and> length (nullish itemIds []) > 0 then
        void (request c w ''POST'' ''/edit-tag'' None
                (Some (SearchParams
                   ((''a'', ''user/-/state/com.google/read'')
                    # map (\<lambda>i. (''i'', i)) (nullish itemIds [])))))
      else if truthy streamId then
        void (request c w ''POST'' ''/mark-all-as-read'' None
                (Some (RecordBody
                   ([(''s'', nullish streamId [])]
                    @ (if timestamp \<noteq> None \<and> timestamp \<noteq> Some 0
                       then [(''ts'', string_of_int (nullish timestamp 0))] else [])))))
      else (Inr (), c, w))"

definition markAsUnread ::
  "InoreaderClient \<Rightarrow> world \<Rightarrow> string list \<Rightarrow> (error + unit) \<times> InoreaderClient \<times> world" where
  "markAsUnread c w itemIds =
     (if length itemIds = 0 then (Inr (), c, w)
      else
        void (request c w ''POST'' ''/edit-tag'' None
                (Some (SearchParams
                   ((''r'', ''user/-/state/com.google/read'') # map (\<lambda>i. (''i'', i)) itemIds)))))"

definition addStar ::
  "InoreaderClient \<Rightarrow> world \<Rightarrow> string \<Rightarrow> (error + unit) \<times> InoreaderClient \<times> world" where
  "addStar c w itemId =
     void (request c w ''POST'' ''/edit-tag'' None
             (Some (RecordBody [(''a'', ''user/-/state/com.google/starred''), (''i'', itemId)])))"

definition removeStar ::
  "InoreaderClient \<Rightarrow> world \<Rightarrow> string \<Rightarrow> (error + unit) \<times> InoreaderClient \<times> world" where
  "removeStar c w itemId =
     void (request c w ''POST'' ''/edit-tag'' None
             (Some (RecordBody [(''r'', ''user/-/state/com.google/starred''), (''i'', itemId)])))"

definition addTag ::
  "InoreaderClient \<Rightarrow> world \<Rightarrow> string \<Rightarrow> string \<Rightarrow> (error + unit) \<times> InoreaderClient \<times> world" where
  "addTag c w itemId tag =
     void (request c w ''POST'' ''/edit-tag'' None (Some (RecordBody [(''a'', tag), (''i'', itemId)])))"

definition removeTag ::
  "InoreaderClient \<Rightarrow> world \<Rightarrow> string \<Rightarrow> string \<Rightarrow> (error + unit) \<times> InoreaderClient \<times> world" where
  "removeTag c w itemId tag =
     void (request c w ''POST'' ''/edit-tag'' None (Some (RecordBody [(''r'', tag), (''i'', itemId)])))"

record edit_options =
  title :: "string option"
  addToFolder :: "string option"
  removeFromFolder :: "string option"

definition editSubscription ::
  "InoreaderClient \<Rightarrow> world \<Rightarrow> string \<Rightarrow> edit_options
   \<Rightarrow> (error + unit) \<times> InoreaderClient \<times> world" where
  "editSubscription c w subscriptionId options =
     (if \<not> truthy (title options) \<and> \<not> truthy (addToFolder options)
         \<and> \<not> truthy (removeFromFolder options) then
        (Inl (InoreaderClientError
                ''At least one option (title, addToFolder, or removeFromFolder) is required''), c, w)
      else if truthy (addToFolder options) \<and> truthy (removeFromFolder options)
              \<and> addToFolder options = removeFromFolder options then
        (Inl (InoreaderClientError ''Cannot add and remove from the same folder''), c, w)
      else
        void (request c w ''POST'' ''/subscription/edit'' None
                (Some (SearchParams
                   ([(''ac'', ''edit''), (''s'', subscriptionId)]
                    @ (if truthy (title options) then [(''t'', nullish (title options) [])] else [])
                    @ (if truthy (addToFolder options)
                       then [(''a'', ''user/-/label/''
                                     @ encodeURIComponent (nullish (addToFolder options) []))]
                       else [])
                    @ (if truthy (removeFromFolder options)
                       then [(''r'', ''user/-/label/''
                                     @ encodeURIComponent (nullish (removeFromFolder options) []))]
                       else []))))))"

text \<open>Every public method of the client, as one call.\<close>

datatype operation =
    GetUserInfo
  | GetUnreadCounts
  | GetSubscriptions
  | GetTags
  | GetStreamContents string stream_options
  | GetStarredItems "int option"
  | GetUnreadItems "int option"
  | AddSubscription string "string option"
  | RemoveSubscription string
  | MarkAsRead "string list option" "string option" "int option"
  | MarkAsUnread "string list"
  | AddStar string
  | RemoveStar string
  | AddTag string string
  | RemoveTag string string
  | EditSubscription string edit_options

text \<open>The value of a method that returns \<^verbatim>\<open>Promise<void>\<close> is \<^verbatim>\<open>undefined\<close>.\<close>

definition undefined_reply ::
  "(error + unit) \<times> InoreaderClient \<times> world \<Rightarrow> (error + reply) \<times> InoreaderClient \<times> world" where
  "undefined_reply r = (case r of (Inl e, c, w) \<Rightarrow> (Inl e, c, w) | (Inr u, c, w) \<Rightarrow> (Inr Empty, c, w))"

fun perform :: "operation \<Rightarrow> InoreaderClient \<Rightarrow> world \<Rightarrow> (error + reply) \<times> InoreaderClient \<times> world" where
  "perform GetUserInfo c w = getUserInfo c w"
| "perform GetUnreadCounts c w = getUnreadCounts c w"
| "perform GetSubscriptions c w = getSubscriptions c w"
| "perform GetTags c w = getTags c w"
| "perform (GetStreamContents streamId options) c w = getStreamContents c w streamId options"
| "perform (GetStarredItems cnt) c w = getStarredItems c w cnt"
| "perform (GetUnreadItems cnt) c w = getUnreadItems c w cnt"
| "perform (AddSubscription feedUrl t) c w = addSubscription c w feedUrl t"
| "perform (RemoveSubscription subscriptionId) c w = undefined_reply (removeSubscription c w subscriptionId)"
| "perform (MarkAsRead itemIds streamId timestamp) c w =
     undefined_reply (markAsRead c w itemIds streamId timestamp)"
| "perform (MarkAsUnread itemIds) c w = undefined_reply (markAsUnread c w itemIds)"
| "perform (AddStar itemId) c w = undefined_reply (addStar c w itemId)"
| "perform (RemoveStar itemId) c w = undefined_reply (removeStar c w itemId)"
| "perform (AddTag itemId tag) c w = undefined_reply (addTag c w itemId tag)"
| "perform (RemoveTag itemId tag) c w = undefined_reply (removeTag c w itemId tag)"
| "perform (EditSubscription subscriptionId options) c w =
     undefined_reply (editSubscription c w subscriptionId options)"

subsection \<open>The tool layer (\<^verbatim>\<open>index.ts\<close>)\<close>

definition createClient :: "world \<Rightarrow> (error + InoreaderClient) \<times> world" where
  "createClient w =
     (case getValidAccessToken w of
        (Inl e, w1) \<Rightarrow> (Inl e, w1)
      | (Inr token, w1) \<Rightarrow>
          (Inr \<lparr> config =
                   \<lparr> appId = nullish (env w1 ''INOREADER_APP_ID'') [],
                     appKey = nullish (env w1 ''INOREADER_APP_KEY'') [],
                     config_accessToken = token,
                     config_refreshToken = env w1 ''INOREADER_REFRESH_TOKEN'',
                     apiBaseUrl =
                       nullish (env w1 ''INOREADER_API_BASE_URL'')
                         ''https://www.inoreader.com/reader/api/0'',
                     oauthBaseUrl =
                       nullish (env w1 ''INOREADER_OAUTH_BASE_URL'')
                         ''https://www.inoreader.com/oauth2'' \<rparr>,
                 accessToken = token,
                 hasRetriedAuth = False \<rparr>, w1))"

text \<open>\<^verbatim>\<open>getClient\<close>: the module variable \<^verbatim>\<open>client\<close> is the \<open>InoreaderClient option\<close>
  passed in and returned.\<close>

definition getClient ::
  "InoreaderClient option \<Rightarrow> world \<Rightarrow> (error + InoreaderClient) \<times> InoreaderClient option \<times> world" where
  "getClient client w =
     (case client of
        Some c \<Rightarrow> (Inr c, client, w)
      | None \<Rightarrow>
          (case createClient w of
             (Inl e, w1) \<Rightarrow> (Inl e, None, w1)
           | (Inr c, w1) \<Rightarrow> (Inr c, Some c, w1)))"

text \<open>What a tool returns: \<open>payload\<close> is the value whose \<^verbatim>\<open>JSON.stringify\<close> is the text of
  the reply, \<open>isError\<close> is the error flag (false when the handler does not set it).\<close>

record tool_result =
  payload :: json
  isError :: bool

definition handleToolError :: "error \<Rightarrow> tool_result" where
  "handleToolError e = \<lparr> payload = JObj [(''error'', JStr (message e))], isError = True \<rparr>"

text \<open>The handler of the tool \<^verbatim>\<open>mark_as_unread\<close>. The client object is shared with the
  module variable, so what the method does to it is seen there.\<close>

definition mark_as_unread ::
  "string list \<Rightarrow> InoreaderClient option \<Rightarrow> world \<Rightarrow> tool_result \<times> InoreaderClient option \<times> world" where
  "mark_as_unread item_ids client w =
     (case getClient client w of
        (Inl e, client1, w1) \<Rightarrow> (handleToolError e, client1, w1)
      | (Inr c, client1, w1) \<Rightarrow>
          (case markAsUnread c w1 item_ids of
             (Inl e, c2, w2) \<Rightarrow> (handleToolError e, Some c2, w2)
           | (Inr u, c2, w2) \<Rightarrow>
               (\<lparr> payload =
                    JObj [(''success'', JBool True),
                          (''message'',
                           JStr (''Marked '' @ string_of_nat (length item_ids) @ '' items as unread''))],
                  isError = False \<rparr>, Some c2, w2)))"

text \<open>
  The schema \<^verbatim>\<open>z.number().min(1).max(100).default(20)\<close> of the \<open>count\<close> argument of
  \<^verbatim>\<open>get_articles\<close> and \<^verbatim>\<open>get_starred_articles\<close>, with the meaning zod gives it: an
  absent value becomes 20, a value below 1 or above 100 is refused.
\<close>

datatype zod_issue = too_small | too_big

definition count_schema :: "int option \<Rightarrow> zod_issue + int" where
  "count_schema v =
     (case v of
        None \<Rightarrow> Inr 20
      | Some k \<Rightarrow> if k < 1 then Inl too_small else if k > 100 then Inl too_big else Inr k)"

text \<open>The value \<^verbatim>\<open>contents\<close> in the handler of \<^verbatim>\<open>get_articles\<close>, for the client \<open>c\<close> that
  \<^verbatim>\<open>getClient\<close> gave and arguments that passed the schema.\<close>

definition get_articles_contents ::
  "string option \<Rightarrow> int \<Rightarrow> bool \<Rightarrow> InoreaderClient \<Rightarrow> world
   \<Rightarrow> (error + reply) \<times> InoreaderClient \<times> world" where
  "get_articles_contents stream_id cnt unread_only c w =
     (if truthy stream_id then
        getStreamContents c w (nullish stream_id [])
          \<lparr> count = Some cnt, continuation = None,
            excludeTarget = (if unread_only then Some ''user/-/state/com.google/read'' else None),
            includeAllItems = None \<rparr>
      else if unread_only then getUnreadItems c w (Some cnt)
      else
        getStreamContents c w ''user/-/state/com.google/reading-list''
          \<lparr> count = Some cnt, continuation = None, excludeTarget = None, includeAllItems = None \<rparr>)"

text \<open>The tool \<^verbatim>\<open>get_articles\<close> as the server dispatches it: the arguments are parsed
  against the schema first, and the handler runs only when they pass.\<close>

definition get_articles ::
  "string option \<Rightarrow> int option \<Rightarrow> bool option \<Rightarrow> InoreaderClient \<Rightarrow> world
   \<Rightarrow> zod_issue + (error + reply) \<times> InoreaderClient \<times> world" where
  "get_articles stream_id cnt unread_only c w =
     (case count_schema cnt of
        Inl issue \<Rightarrow> Inl issue
      | Inr n \<Rightarrow> Inr (get_articles_contents stream_id n (nullish unread_only True) c w))"

subsection \<open>Observing what a call sent\<close>

text \<open>The requests that reached the REST API between the worlds \<open>w\<close> and \<open>w'\<close>.\<close>

definition sent_during :: "world \<Rightarrow> world \<Rightarrow> http_request list" where
  "sent_during w w' = drop (length (api_requests w)) (api_requests w')"

text \<open>The page-size parameter \<open>n\<close> of a request to the REST API.\<close>

definition page_size :: "http_request \<Rightarrow> string option" where
  "page_size q = map_of (req_query q) ''n''"

text \<open>Between \<open>w\<close> and \<open>w'\<close> at least one request was sent, and each one sent carries the
  page size \<open>s\<close>.\<close>

definition sends_page_size :: "world \<Rightarrow> world \<Rightarrow> string \<Rightarrow> bool" where
  "sends_page_size w w' s \<longleftrightarrow>
     sent_during w w' \<noteq> [] \<and> list_all (\<lambda>q. page_size q = Some s) (sent_during w w')"

subsection \<open>A sample installation\<close>

text \<open>A client whose access token has gone stale, on a Linux machine whose keychain holds a
  token pair; the REST API accepts only the token \<open>fresh\<close>, which the token endpoint hands
  out without a new refresh token.\<close>

definition sample_client :: InoreaderClient where
  "sample_client =
     \<lparr> config =
         \<lparr> appId = ''id'', appKey = ''key'', config_accessToken = ''stale'',
           config_refreshToken = None,
           apiBaseUrl = ''https://www.inoreader.com/reader/api/0'',
           oauthBaseUrl = ''https://www.inoreader.com/oauth2'' \<rparr>,
       accessToken = ''stale'',
       hasRetriedAuth = False \<rparr>"

definition number_reply :: "json http_response" where
  "number_reply =
     \<lparr> status = 200, statusText = ''OK'', content_type = Some ''application/json; charset=utf-8'',
       body_text = ''42'', body_json = Inr (JNum 42) \<rparr>"

definition unauthorized_reply :: "json http_response" where
  "unauthorized_reply =
     \<lparr> status = 401, statusText = ''Unauthorized'', content_type = None, body_text = [],
       body_json = Inl (RuntimeError ''SyntaxError'' ''Unexpected end of JSON input'') \<rparr>"

definition unavailable_reply :: "json http_response" where
  "unavailable_reply =
     \<lparr> status = 503, statusText = ''Service Unavailable'', content_type = Some ''text/html'',
       body_text = ''busy'',
       body_json = Inl (RuntimeError ''SyntaxError'' ''Unexpected token'') \<rparr>"

definition token_reply :: "TokenResponse http_response" where
  "token_reply =
     \<lparr> status = 200, statusText = ''OK'', content_type = Some ''application/json'',
       body_text = [],
       body_json = Inr \<lparr> access_token = ''fresh'', refresh_token = None, expires_in = 3600,
                         token_type = ''Bearer'' \<rparr> \<rparr>"

definition sample_tokens :: TokenData where
  "sample_tokens =
     \<lparr> stored_accessToken = ''stale'', stored_refreshToken = ''R'', stored_expiresAt = Some 1000 \<rparr>"

definition sample_world :: world where
  "sample_world =
     \<lparr> upstream =
         (\<lambda>n req. if (''Authorization'', ''Bearer fresh'') \<in> set (req_headers req)
                  then Responds number_reply else Responds unauthorized_reply),
       token_endpoint = (\<lambda>n req. Responds token_reply),
       platform = Linux,
       keychain = Some sample_tokens,
       keychain_delete_ok = True,
       keychain_store_ok = True,
       shell_error = RuntimeError ''ShellError'' ''Failed with exit code 1'',
       env = [''INOREADER_APP_ID'' \<mapsto> ''id'', ''INOREADER_APP_KEY'' \<mapsto> ''key''],
       now = 5000,
       events = [] \<rparr>"

text \<open>The same installation when the token endpoint cannot be reached at the first
  attempt and answers from the second on.\<close>

definition flaky_world :: world where
  "flaky_world =
     sample_world
       \<lparr> token_endpoint :=
           (\<lambda>n req. if n = 0 then Rejects (RuntimeError ''TypeError'' ''fetch failed'')
                    else Responds token_reply) \<rparr>"

text \<open>The same installation when the REST API is down.\<close>

definition down_world :: world where
  "down_world = sample_world \<lparr> upstream := (\<lambda>n req. Responds unavailable_reply) \<rparr>"

text \<open>The same installation when the REST API refuses the first request and is down from
  the second on.\<close>

definition relapsing_world :: world where
  "relapsing_world =
     sample_world
       \<lparr> upstream := (\<lambda>n req. if n = 0 then Responds unauthorized_reply
                               else Responds unavailable_reply) \<rparr>"

text \<open>An article that was read and not starred, with a summary of 501 characters.\<close>

definition sample_item :: StreamItem where
  "sample_item =
     \<lparr> item_id = ''tag:google.com,2005:reader/item/1'', crawlTimeMsec = None, timestampUsec = None,
       published = Some 1700000000, updated = None, item_title = ''Hello'',
       canonical = Some [\<lparr> href = ''https://example.org/hello'' \<rparr>], alternate = None,
       categories = [''user/-/state/com.google/reading-list'', ''user/-/state/com.google/read''],
       origin = None,
       summary = Some \<lparr> direction = ''ltr'', content = replicate 501 (CHR ''x'') \<rparr>,
       author = None \<rparr>"

text \<open>An answer with no content, as the REST API gives to an edit, and the same answer
  when it carries a JSON \<open>content-type\<close> header: the body is empty, so decoding it as JSON
  fails. The installation when the REST API gives the one and the other to every request.\<close>

definition no_content_reply :: "json http_response" where
  "no_content_reply =
     \<lparr> status = 204, statusText = ''No Content'', content_type = None, body_text = [],
       body_json = Inl (RuntimeError ''SyntaxError'' ''Unexpected end of JSON input'') \<rparr>"

definition no_content_json_reply :: "json http_response" where
  "no_content_json_reply = no_content_reply \<lparr> content_type := Some ''application/json'' \<rparr>"

definition no_content_world :: world where
  "no_content_world = sample_world \<lparr> upstream := (\<lambda>n req. Responds no_content_reply) \<rparr>"

definition no_content_json_world :: world where
  "no_content_json_world = sample_world \<lparr> upstream := (\<lambda>n req. Responds no_content_json_reply) \<rparr>"

section \<open>Properties\<close>

subsection \<open>The event log, the keychain and the refresh protocol\<close>

lemma events_record_event [simp]: "events (record_event e w) = events w @ [e]"
  by (simp add: record_event_def)

lemma record_event_fields [simp]:
  "upstream (record_event e w) = upstream w"
  "token_endpoint (record_event e w) = token_endpoint w"
  "platform (record_event e w) = platform w"
  "keychain (record_event e w) = keychain w"
  "keychain_delete_ok (record_event e w) = keychain_delete_ok w"
  "keychain_store_ok (record_event e w) = keychain_store_ok w"
  "shell_error (record_event e w) = shell_error w"
  "env (record_event e w) = env w"
  "now (record_event e w) = now w"
  by (simp_all add: record_event_def)

lemma api_requests_record_event [simp]:
  "api_requests (record_event e w) = api_requests w @ (case e of Fetch r \<Rightarrow> [r] | _ \<Rightarrow> [])"
  by (cases e) (simp_all add: api_requests_def List.map_filter_def)

lemma token_requests_record_event [simp]:
  "token_requests (record_event e w) = token_requests w @ (case e of TokenFetch r \<Rightarrow> [r] | _ \<Rightarrow> [])"
  by (cases e) (simp_all add: token_requests_def List.map_filter_def)

lemma saves_record_event [simp]:
  "saves (record_event e w) = saves w @ (case e of SaveTokens t \<Rightarrow> [t] | _ \<Rightarrow> [])"
  by (cases e) (simp_all add: saves_def List.map_filter_def)

lemma loads_record_event [simp]:
  "loads (record_event e w) = loads w + (if e = LoadTokens then 1 else 0)"
  by (simp add: loads_def)

lemma keychain_update_logs [simp]:
  "api_requests (w\<lparr>keychain := k\<rparr>) = api_requests w"
  "saves (w\<lparr>keychain := k\<rparr>) = saves w"
  "loads (w\<lparr>keychain := k\<rparr>) = loads w"
  by (simp_all add: api_requests_def saves_def loads_def)

lemma starts_with_append: "starts_with (p @ s) p"
  by (induction p) auto

lemma str_includes_middle: "str_includes (a @ b @ c) b"
proof (induction a)
  case Nil
  show ?case by (cases "b @ c") (use starts_with_append[of b c] in \<open>auto\<close>)
next
  case (Cons x a)
  then show ?case by simp
qed

lemma refreshAccessToken_world:
  "refreshAccessToken w rt = (res, w') \<Longrightarrow>
     api_requests w' = api_requests w \<and> loads w' = loads w \<and> saves w' = saves w
     \<and> upstream w' = upstream w \<and> now w' = now w \<and> keychain w' = keychain w
     \<and> platform w' = platform w \<and> keychain_store_ok w' = keychain_store_ok w"
  by (auto simp: refreshAccessToken_def token_fetch_def
           split: sum.splits prod.splits fetch_outcome.splits if_splits)

lemma saveTokens_world:
  "saveTokens w t = (res, w') \<Longrightarrow>
     api_requests w' = api_requests w \<and> loads w' = loads w \<and> saves w' = saves w @ [t]
     \<and> upstream w' = upstream w \<and> (res = Inr () \<longrightarrow> keychain w' = Some t)"
  by (auto simp: saveTokens_def Let_def split: platform.splits if_splits)

text \<open>The refresh protocol touches neither the retry flag nor the configuration, sends
  nothing to the REST API, reads the keychain once, and leaves the client as it was when
  it fails.\<close>

lemma tryRefreshToken_effect:
  assumes "tryRefreshToken c w = (refreshed, c', w')"
  shows "hasRetriedAuth c' = hasRetriedAuth c" "config c' = config c"
        "api_requests w' = api_requests w" "upstream w' = upstream w" "loads w' = loads w + 1"
        "\<not> refreshed \<Longrightarrow> c' = c"
  using assms
  by (auto simp: tryRefreshToken_def loadTokens_def
           split: option.splits if_splits prod.splits sum.splits
           dest!: refreshAccessToken_world saveTokens_world)

lemmas sample_defs =
  sample_client_def sample_world_def sample_tokens_def number_reply_def unauthorized_reply_def
  unavailable_reply_def token_reply_def flaky_world_def down_world_def

lemmas run_defs =
  tryRefreshToken_def loadTokens_def refreshAccessToken_def getAuthConfig_def token_fetch_def
  saveTokens_def fetch_def build_request_def truthy_def nullish_def new_or_carried_def ok_def
  OAUTH_BASE_URL_def token_requests_def api_requests_def List.map_filter_def record_event_def

subsection \<open>One step of \<^verbatim>\<open>request\<close> for each kind of answer\<close>

lemma request_retried:
  assumes "hasRetriedAuth c"
  shows "snd (snd (request c w method endpoint params body)) =
           record_event (Fetch (build_request c method endpoint params body)) w"
  using assms
  by (simp add: request.simps fetch_def Let_def split: fetch_outcome.splits sum.splits)

lemma request_ok:
  assumes "fetch w (build_request c method endpoint params body) = (Responds r, w1)" and "ok r"
  shows "request c w method endpoint params body =
     ((if str_includes (nullish (content_type r) []) ''application/json''
       then (case body_json r of Inl e \<Rightarrow> Inl e | Inr j \<Rightarrow> Inr (JsonBody j))
       else if status r = 204 \<or> status r = 205 \<or> body_text r = [] then Inr Empty
       else Inr (TextBody (body_text r))),
      c\<lparr>hasRetriedAuth := False\<rparr>, w1)"
  using assms by (auto simp add: request.simps ok_def Let_def split: sum.splits)

lemma request_other_status:
  assumes "fetch w (build_request c method endpoint params body) = (Responds r, w1)"
      and "\<not> ok r" "status r \<noteq> 401" "status r \<noteq> 403"
  shows "request c w method endpoint params body =
           (Inl (InoreaderClientError
                   (''API request failed: '' @ string_of_nat (status r) @ '' '' @ statusText r)),
            c, w1)"
  using assms by (simp add: request.simps)

lemma request_other_status_everywhere:
  assumes "\<forall>req. upstream w (length (api_requests w)) req = Responds r"
      and "\<not> ok r" "status r \<noteq> 401" "status r \<noteq> 403"
  shows "request c w method endpoint params body =
           (Inl (InoreaderClientError
                   (''API request failed: '' @ string_of_nat (status r) @ '' '' @ statusText r)),
            c, record_event (Fetch (build_request c method endpoint params body)) w)"
  using assms by (intro request_other_status) (simp_all add: fetch_def)

lemma request_refresh_failed:
  assumes "\<not> hasRetriedAuth c"
    and "fetch w (build_request c method endpoint params body) = (Responds r, w1)"
    and "status r = 401"
    and "tryRefreshToken (c\<lparr>hasRetriedAuth := True\<rparr>) w1 = (False, c2, w2)"
  shows "request c w method endpoint params body =
           (Inl (AuthenticationError AUTH_FAILED), c\<lparr>hasRetriedAuth := True\<rparr>, w2)"
  using assms tryRefreshToken_effect(6)[OF assms(4)] by (simp add: request.simps[of c w])

lemma request_unauthorized_again:
  assumes "hasRetriedAuth c"
    and "fetch w (build_request c method endpoint params body) = (Responds r, w1)"
    and "status r = 401"
  shows "request c w method endpoint params body = (Inl (AuthenticationError AUTH_FAILED), c, w1)"
  using assms by (simp add: request.simps[of c w])

text \<open>A call that succeeds hands the client back with the retry flag cleared, so every call
  that follows a successful one starts with its retry allowance.\<close>

lemma request_success_resets_flag:
  assumes "request c w method endpoint params body = (Inr v, c', w')"
  shows "\<not> hasRetriedAuth c'"
proof -
  have retried: "\<not> hasRetriedAuth c'"
    if "hasRetriedAuth c" and "request c w method endpoint params body = (Inr v, c', w')"
    for c w c' w'
    using that
    by (auto simp: request.simps[of c w] Let_def
             split: prod.splits fetch_outcome.splits if_splits sum.splits)
  show ?thesis
  proof (cases "hasRetriedAuth c")
    case True
    then show ?thesis using retried assms by blast
  next
    case False
    show ?thesis
      using assms False
      by (auto simp: request.simps[of c w] Let_def
               split: prod.splits fetch_outcome.splits if_splits sum.splits
               dest: retried[rotated] tryRefreshToken_effect(1))
  qed
qed

lemma request_replay:
  assumes fresh: "\<not> hasRetriedAuth c"
    and f1: "fetch w (build_request c method endpoint params body) = (Responds r1, w1)"
    and s1: "status r1 = 401"
    and t: "tryRefreshToken (c\<lparr>hasRetriedAuth := True\<rparr>) w1 = (True, c2, w2)"
    and f2: "fetch w2 (build_request c2 method endpoint params body) = (Responds r2, w3)"
  shows "request c w method endpoint params body = request c2 w2 method endpoint params body"
    and "hasRetriedAuth c2"
    and "snd (snd (request c w method endpoint params body)) = w3"
    and "loads w3 = loads w + 1"
    and "api_requests w3 =
           api_requests w @ [build_request c method endpoint params body,
                             build_request c2 method endpoint params body]"
    and "status r2 = 401 \<Longrightarrow>
           request c w method endpoint params body = (Inl (AuthenticationError AUTH_FAILED), c2, w3)"
proof -
  show step: "request c w method endpoint params body = request c2 w2 method endpoint params body"
    using fresh f1 s1 t by (simp add: request.simps[of c w])
  show flag: "hasRetriedAuth c2" using tryRefreshToken_effect(1)[OF t] by simp
  have w1: "w1 = record_event (Fetch (build_request c method endpoint params body)) w"
    using f1 by (auto simp: fetch_def)
  have w3: "w3 = record_event (Fetch (build_request c2 method endpoint params body)) w2"
    using f2 by (auto simp: fetch_def)
  show "snd (snd (request c w method endpoint params body)) = w3"
    using step flag w3 by (simp add: request_retried)
  show "loads w3 = loads w + 1"
    using tryRefreshToken_effect(5)[OF t] w1 w3 by simp
  show "api_requests w3 =
           api_requests w @ [build_request c method endpoint params body,
                             build_request c2 method endpoint params body]"
    using tryRefreshToken_effect(3)[OF t] w1 w3 by simp
  show "request c w method endpoint params body = (Inl (AuthenticationError AUTH_FAILED), c2, w3)"
    if "status r2 = 401"
    using step flag f2 that by (simp add: request.simps[of c2 w2])
qed

text \<open>Whatever the answers are, one call reads the keychain at most once and reaches the
  REST API at most twice.\<close>

lemma request_refreshes_at_most_once:
  "loads (snd (snd (request c w method endpoint params body))) \<le> loads w + 1
   \<and> length (api_requests (snd (snd (request c w method endpoint params body))))
       \<le> length (api_requests w) + 2"
proof (cases "hasRetriedAuth c")
  case True
  then show ?thesis by (simp add: request_retried)
next
  case False
  let ?req = "build_request c method endpoint params body"
  let ?w1 = "record_event (Fetch ?req) w"
  show ?thesis
  proof (cases "upstream w (length (api_requests w)) ?req")
    case (Rejects e)
    then show ?thesis by (simp add: request.simps[of c w] fetch_def)
  next
    case (Responds r)
    show ?thesis
    proof (cases "status r = 401")
      case no: False
      with Responds show ?thesis
        by (simp add: request.simps[of c w] fetch_def Let_def split: sum.splits)
    next
      case unauth: True
      obtain refreshed c2 w2
        where t: "tryRefreshToken (c\<lparr>hasRetriedAuth := True\<rparr>) ?w1 = (refreshed, c2, w2)"
        by (cases "tryRefreshToken (c\<lparr>hasRetriedAuth := True\<rparr>) ?w1") auto
      have flag: "hasRetriedAuth c2" and l: "loads w2 = loads ?w1 + 1"
        and a: "api_requests w2 = api_requests ?w1"
        using tryRefreshToken_effect[OF t] by simp_all
      show ?thesis
      proof (cases refreshed)
        case True
        with Responds unauth False t have
          "request c w method endpoint params body = request c2 w2 method endpoint params body"
          by (simp add: request.simps[of c w] fetch_def)
        with flag l a show ?thesis by (simp add: request_retried)
      next
        case no_refresh: False
        with Responds unauth False t l a show ?thesis
          by (simp add: request.simps[of c w] fetch_def)
      qed
    qed
  qed
qed

lemma build_request_token:
  assumes "config c2 = config c"
  shows "req_method (build_request c2 m e p b) = req_method (build_request c m e p b)"
        "req_url (build_request c2 m e p b) = req_url (build_request c m e p b)"
        "req_query (build_request c2 m e p b) = req_query (build_request c m e p b)"
        "req_body (build_request c2 m e p b) = req_body (build_request c m e p b)"
  using assms by (simp_all add: build_request_def)

text \<open>Every call of \<^verbatim>\<open>request\<close> sends at least one request, and a replay differs from the
  first attempt in the bearer token only.\<close>

lemma request_sends:
  "\<exists>reqs. api_requests (snd (snd (request c w method endpoint params body))) = api_requests w @ reqs
     \<and> reqs \<noteq> []
     \<and> (\<forall>q\<in>set reqs. req_method q = method
            \<and> req_url q = req_url (build_request c method endpoint params body)
            \<and> req_query q = req_query (build_request c method endpoint params body)
            \<and> req_body q = req_body (build_request c method endpoint params body))"
proof (cases "hasRetriedAuth c")
  case True
  then show ?thesis by (simp add: request_retried) (simp add: build_request_def)
next
  case False
  let ?req = "build_request c method endpoint params body"
  let ?w1 = "record_event (Fetch ?req) w"
  have m: "req_method ?req = method" by (simp add: build_request_def)
  show ?thesis
  proof (cases "upstream w (length (api_requests w)) ?req")
    case (Rejects e)
    then show ?thesis using m by (simp add: request.simps[of c w] fetch_def)
  next
    case (Responds r)
    show ?thesis
    proof (cases "status r = 401")
      case no: False
      with Responds show ?thesis using m
        by (simp add: request.simps[of c w] fetch_def Let_def split: sum.splits)
    next
      case unauth: True
      obtain refreshed c2 w2
        where t: "tryRefreshToken (c\<lparr>hasRetriedAuth := True\<rparr>) ?w1 = (refreshed, c2, w2)"
        by (cases "tryRefreshToken (c\<lparr>hasRetriedAuth := True\<rparr>) ?w1") auto
      have flag: "hasRetriedAuth c2" and cfg: "config c2 = config c"
        and a: "api_requests w2 = api_requests ?w1"
        using tryRefreshToken_effect[OF t] by simp_all
      show ?thesis
      proof (cases refreshed)
        case True
        with Responds unauth False t have
          "request c w method endpoint params body = request c2 w2 method endpoint params body"
          by (simp add: request.simps[of c w] fetch_def)
        with flag a m build_request_token[OF cfg] show ?thesis by (simp add: request_retried)
      next
        case no_refresh: False
        with Responds unauth False t a m show ?thesis
          by (simp add: request.simps[of c w] fetch_def)
      qed
    qed
  qed
qed

subsection \<open>Refresh and replay after a 401\<close>

text \<open>
  C1. In every call, the token-refresh protocol runs at most once. When a call that still
  has its retry allowance (\<open>hasRetriedAuth\<close> is false, as at construction and after every
  successful call) gets a 401 at the first attempt, the protocol succeeds and the replayed
  request is answered by \<open>r2\<close>, then the call ends right after the replay: it has run the
  protocol once and sent two requests, the first with the old token and the second with the
  new one. If \<open>r2\<close> is a 401 again the call fails with an Authentication error and no
  second refresh. If \<open>r2\<close> is a 2xx answer the call returns what any call returns whose
  first attempt is answered by \<open>r2\<close>.
\<close>

theorem refresh_and_replay_once:
  "loads (snd (snd (request c w method endpoint params body))) \<le> loads w + 1
   \<and> (\<not> hasRetriedAuth c
        \<and> fetch w (build_request c method endpoint params body) = (Responds r1, w1)
        \<and> status r1 = 401
        \<and> tryRefreshToken (c\<lparr>hasRetriedAuth := True\<rparr>) w1 = (True, c2, w2)
        \<and> fetch w2 (build_request c2 method endpoint params body) = (Responds r2, w3)
      \<longrightarrow> snd (snd (request c w method endpoint params body)) = w3
          \<and> loads w3 = loads w + 1
          \<and> api_requests w3 =
              api_requests w @ [build_request c method endpoint params body,
                                build_request c2 method endpoint params body]
          \<and> (status r2 = 401 \<longrightarrow>
                request c w method endpoint params body = (Inl (AuthenticationError AUTH_FAILED), c2, w3))
          \<and> (ok r2 \<longrightarrow>
                (\<forall>c' w' w1'. fetch w' (build_request c' method endpoint params body) = (Responds r2, w1')
                   \<longrightarrow> fst (request c w method endpoint params body)
                       = fst (request c' w' method endpoint params body))))"
  (is "?once \<and> (?scenario \<longrightarrow> ?outcome)")
proof (rule conjI)
  show ?once using request_refreshes_at_most_once by blast
next
  show "?scenario \<longrightarrow> ?outcome"
  proof
    assume ?scenario
    then have fresh: "\<not> hasRetriedAuth c"
      and f1: "fetch w (build_request c method endpoint params body) = (Responds r1, w1)"
      and s1: "status r1 = 401"
      and t: "tryRefreshToken (c\<lparr>hasRetriedAuth := True\<rparr>) w1 = (True, c2, w2)"
      and f2: "fetch w2 (build_request c2 method endpoint params body) = (Responds r2, w3)"
      by simp_all
    note r = request_replay[OF fresh f1 s1 t f2]
    have same: "fst (request c w method endpoint params body)
                  = fst (request c' w' method endpoint params body)"
      if "ok r2" and "fetch w' (build_request c' method endpoint params body) = (Responds r2, w1')"
      for c' w' w1'
      using request_ok[OF f2 that(1)] request_ok[OF that(2) that(1)] r(1) by simp
    show ?outcome using r(3,4,5,6) same by blast
  qed
qed

theorem refresh_and_replay_once_witness:
  "fst (request sample_client sample_world ''GET'' ''/user-info'' None None)
     = fst (request (sample_client\<lparr>accessToken := ''fresh''\<rparr>) sample_world
              ''GET'' ''/user-info'' None None)
   \<and> loads (snd (snd (request sample_client sample_world ''GET'' ''/user-info'' None None))) = 1
   \<and> length (api_requests
               (snd (snd (request sample_client sample_world ''GET'' ''/user-info'' None None)))) = 2"
proof -
  let ?req = "build_request sample_client ''GET'' ''/user-info'' None None"
  let ?c' = "sample_client\<lparr>accessToken := ''fresh''\<rparr>"
  define w1 where "w1 = record_event (Fetch ?req) sample_world"
  have "fst (tryRefreshToken (sample_client\<lparr>hasRetriedAuth := True\<rparr>) w1)
        \<and> accessToken (fst (snd (tryRefreshToken (sample_client\<lparr>hasRetriedAuth := True\<rparr>) w1)))
            = ''fresh''"
    by (simp add: w1_def run_defs sample_defs)
  then obtain c2 w2 where
    t: "tryRefreshToken (sample_client\<lparr>hasRetriedAuth := True\<rparr>) w1 = (True, c2, w2)"
    and c2: "accessToken c2 = ''fresh''"
    by (cases "tryRefreshToken (sample_client\<lparr>hasRetriedAuth := True\<rparr>) w1") auto
  define w3 where "w3 = record_event (Fetch (build_request c2 ''GET'' ''/user-info'' None None)) w2"
  have fresh: "\<not> hasRetriedAuth sample_client" by (simp add: sample_client_def)
  have f1: "fetch sample_world ?req = (Responds unauthorized_reply, w1)"
    by (simp add: w1_def fetch_def build_request_def sample_defs)
  have s1: "status unauthorized_reply = 401" by (simp add: unauthorized_reply_def)
  have accept: "upstream sample_world n q = Responds number_reply"
    if "(''Authorization'', ''Bearer fresh'') \<in> set (req_headers q)" for n q
    using that by (simp add: sample_world_def)
  have up: "upstream w2 = upstream sample_world"
    using tryRefreshToken_effect(4)[OF t] by (simp add: w1_def)
  have f2: "fetch w2 (build_request c2 ''GET'' ''/user-info'' None None) = (Responds number_reply, w3)"
    by (simp add: w3_def fetch_def up accept build_request_def c2)
  have k: "ok number_reply" by (simp add: ok_def number_reply_def)
  have f': "fetch sample_world (build_request ?c' ''GET'' ''/user-info'' None None)
              = (Responds number_reply,
                 record_event (Fetch (build_request ?c' ''GET'' ''/user-info'' None None)) sample_world)"
    by (simp add: fetch_def accept build_request_def sample_client_def)
  have l0: "loads sample_world = 0" and a0: "api_requests sample_world = []"
    by (simp_all add: loads_def api_requests_def sample_world_def List.map_filter_def)
  show ?thesis
    using refresh_and_replay_once
            [of sample_client sample_world "''GET''" "''/user-info''" None None
                unauthorized_reply w1 c2 w2 number_reply w3]
          fresh f1 s1 t f2 k f' l0 a0
    by simp
qed

subsection \<open>The retry flag across calls\<close>

text \<open>
  C2. The retry allowance is kept in the instance field \<open>hasRetriedAuth\<close>, which is set
  before the refresh and cleared only where a call succeeds. On the sample installation
  with a token endpoint that is unreachable once: the first call gets a 401, runs the
  refresh protocol, which fails, and ends with an Authentication error and the flag still
  set. The next call on the same client gets a 401 at its first attempt and fails at once:
  the keychain is not read again and only one request is sent, although the refresh
  protocol would succeed if it were run.
\<close>

theorem retry_flag_survives_failed_refresh:
  "(case request sample_client flaky_world ''GET'' ''/user-info'' None None of
      (res1, c1, w1) \<Rightarrow>
        (case request c1 w1 ''GET'' ''/user-info'' None None of
           (res2, c2, w2) \<Rightarrow>
             res1 = Inl (AuthenticationError AUTH_FAILED)
             \<and> loads w1 = 1
             \<and> hasRetriedAuth c1
             \<and> res2 = Inl (AuthenticationError AUTH_FAILED)
             \<and> loads w2 = 1
             \<and> length (api_requests w2) = 2
             \<and> fst (tryRefreshToken c2 w2)))"
proof -
  let ?req = "build_request sample_client ''GET'' ''/user-info'' None None"
  define c1 where "c1 = sample_client\<lparr>hasRetriedAuth := True\<rparr>"
  define w0 where "w0 = record_event (Fetch ?req) flaky_world"
  have refuse: "upstream flaky_world n q = Responds unauthorized_reply"
    if "req_headers q = [(''Authorization'', ''Bearer stale'')]" for n q
    using that by (simp add: sample_defs)
  have hdr: "req_headers (build_request c ''GET'' ''/user-info'' None None)
               = [(''Authorization'', ''Bearer stale'')]"
    if "accessToken c = ''stale''" for c
    using that by (simp add: build_request_def)
  have s: "status unauthorized_reply = 401" by (simp add: unauthorized_reply_def)
  have fresh: "\<not> hasRetriedAuth sample_client" and tok: "accessToken sample_client = ''stale''"
    by (simp_all add: sample_client_def)
  have flag: "hasRetriedAuth c1" and tok1: "accessToken c1 = ''stale''"
    by (simp_all add: c1_def sample_client_def)
  have f1: "fetch flaky_world ?req = (Responds unauthorized_reply, w0)"
    by (simp add: fetch_def w0_def refuse[OF hdr[OF tok]])
  define treq where
    "treq = \<lparr> req_method = ''POST'', req_url = ''https://www.inoreader.com/oauth2/token'',
               req_query = [],
               req_headers = [(''Content-Type'', ''application/x-www-form-urlencoded'')],
               req_body = Some [(''client_id'', ''id''), (''client_secret'', ''key''),
                                (''grant_type'', ''refresh_token''), (''refresh_token'', ''R'')] \<rparr>"
  define w1 where "w1 = record_event (TokenFetch treq) (record_event LoadTokens w0)"
  have t: "tryRefreshToken c1 w0 = (False, c1, w1)"
    by (simp add: w1_def treq_def c1_def w0_def run_defs sample_defs)
  have first: "request sample_client flaky_world ''GET'' ''/user-info'' None None
                 = (Inl (AuthenticationError AUTH_FAILED), c1, w1)"
    using request_refresh_failed[OF fresh f1 s t[unfolded c1_def]] by (simp add: c1_def)
  define w2 where "w2 = record_event (Fetch (build_request c1 ''GET'' ''/user-info'' None None)) w1"
  have up: "upstream w1 = upstream flaky_world"
    using tryRefreshToken_effect(4)[OF t] by (simp add: w0_def)
  have f2: "fetch w1 (build_request c1 ''GET'' ''/user-info'' None None)
              = (Responds unauthorized_reply, w2)"
    by (simp add: fetch_def w2_def up refuse[OF hdr[OF tok1]])
  have second: "request c1 w1 ''GET'' ''/user-info'' None None
                  = (Inl (AuthenticationError AUTH_FAILED), c1, w2)"
    using request_unauthorized_again[OF flag f2 s] .
  have l1: "loads w1 = 1" using tryRefreshToken_effect(5)[OF t]
    by (simp add: w0_def loads_def sample_defs)
  have a1: "length (api_requests w1) = 1" using tryRefreshToken_effect(3)[OF t]
    by (simp add: w0_def api_requests_def sample_defs List.map_filter_def)
  have l2: "loads w2 = 1" and a2: "length (api_requests w2) = 2"
    using l1 a1 by (simp_all add: w2_def)
  have again: "fst (tryRefreshToken c1 w2)"
    by (simp add: w2_def w1_def treq_def c1_def w0_def run_defs sample_defs)
  show ?thesis using first second l1 flag l2 a2 again by simp
qed

subsection \<open>The token pair after a refresh\<close>

text \<open>
  C3. Let the keychain hold a token pair with refresh token \<open>R\<close>, and let the token
  endpoint answer the refresh with a new access token and no refresh token (absent or
  empty). If the refresh succeeds, the keychain holds the pair of the new access token, the
  refresh token \<open>R\<close> carried forward and the new expiry; this pair was handed to
  \<open>saveTokens\<close> in one call, the only save of the refresh; and the session has adopted
  the new access token. If the refresh does not succeed, which here means that the save
  failed, the session is unchanged: the new access token is adopted only after the save.
\<close>

theorem refresh_carries_refresh_token_forward:
  assumes load: "loadTokens w = (Some tokens, w1)"
    and given: "stored_refreshToken tokens \<noteq> []"
    and reply: "refreshAccessToken w1 (stored_refreshToken tokens) = (Inr newTokens, w2)"
    and omitted: "\<not> truthy (refresh_token newTokens)"
    and run: "tryRefreshToken c w = (refreshed, c', w')"
  shows "(refreshed \<longrightarrow>
            keychain w' = Some \<lparr> stored_accessToken = access_token newTokens,
                                 stored_refreshToken = stored_refreshToken tokens,
                                 stored_expiresAt = Some (now w + expires_in newTokens * 1000) \<rparr>
            \<and> saves w' = saves w @ [\<lparr> stored_accessToken = access_token newTokens,
                                      stored_refreshToken = stored_refreshToken tokens,
                                      stored_expiresAt = Some (now w + expires_in newTokens * 1000) \<rparr>]
            \<and> accessToken c' = access_token newTokens)
       \<and> (\<not> refreshed \<longrightarrow> c' = c)"
proof -
  let ?pair = "\<lparr> stored_accessToken = access_token newTokens,
                 stored_refreshToken = stored_refreshToken tokens,
                 stored_expiresAt = Some (now w + expires_in newTokens * 1000) \<rparr>"
  have w1: "w1 = record_event LoadTokens w" using load by (auto simp: loadTokens_def)
  have n: "now w2 = now w" and s2: "saves w2 = saves w"
    using refreshAccessToken_world[OF reply] w1 by simp_all
  have carried: "new_or_carried (refresh_token newTokens) (stored_refreshToken tokens)
                   = stored_refreshToken tokens"
    using omitted by (simp add: new_or_carried_def)
  obtain res w3 where sv: "saveTokens w2 ?pair = (res, w3)" by (cases "saveTokens w2 ?pair") auto
  have t: "tryRefreshToken c w =
             (case res of
                Inl e \<Rightarrow> (False, c, w3)
              | Inr u \<Rightarrow> (True, c\<lparr>accessToken := access_token newTokens\<rparr>, w3))"
    using load given reply carried sv n by (simp add: tryRefreshToken_def)
  show ?thesis
  proof (cases res)
    case (Inl e)
    with t run show ?thesis by simp
  next
    case (Inr u)
    with t run saveTokens_world[OF sv] s2 show ?thesis by simp
  qed
qed

theorem refresh_carries_refresh_token_forward_witness:
  "fst (tryRefreshToken sample_client sample_world)
   \<and> keychain (snd (snd (tryRefreshToken sample_client sample_world))) =
       Some \<lparr> stored_accessToken = ''fresh'', stored_refreshToken = ''R'',
              stored_expiresAt = Some 3605000 \<rparr>
   \<and> accessToken (fst (snd (tryRefreshToken sample_client sample_world))) = ''fresh''"
proof -
  let ?t = "tryRefreshToken sample_client sample_world"
  let ?w1 = "record_event LoadTokens sample_world"
  let ?new = "\<lparr> access_token = ''fresh'', refresh_token = None, expires_in = 3600,
                 token_type = ''Bearer'' \<rparr>"
  have load: "loadTokens sample_world = (Some sample_tokens, ?w1)"
    by (simp add: loadTokens_def sample_world_def)
  have given: "stored_refreshToken sample_tokens \<noteq> []" by (simp add: sample_tokens_def)
  have reply: "refreshAccessToken ?w1 (stored_refreshToken sample_tokens)
                 = (Inr ?new, snd (refreshAccessToken ?w1 (stored_refreshToken sample_tokens)))"
    by (simp add: run_defs sample_defs)
  have omitted: "\<not> truthy (refresh_token ?new)" by (simp add: truthy_def)
  have run: "?t = (fst ?t, fst (snd ?t), snd (snd ?t))" by simp
  have ok: "fst ?t" by (simp add: run_defs sample_defs)
  show ?thesis
    using refresh_carries_refresh_token_forward[OF load given reply omitted run] ok
    by (simp add: sample_defs)
qed

subsection \<open>Other failing statuses\<close>

lemmas operation_defs =
  getUserInfo_def getUnreadCounts_def getSubscriptions_def getTags_def getStreamContents_def
  getStarredItems_def getUnreadItems_def addSubscription_def removeSubscription_def markAsRead_def
  markAsUnread_def addStar_def removeStar_def addTag_def removeTag_def editSubscription_def
  void_def undefined_reply_def

text \<open>
  C4. Let \<open>r\<close> be an answer whose status is not 2xx, not 401 and not 403. For every
  operation of the client that goes to the network and is answered by \<open>r\<close>, the operation
  fails with an \<open>InoreaderClientError\<close> whose message is
  \<open>API request failed: <status> <reason phrase>\<close>, so the message contains the decimal
  status code and the reason phrase; exactly one request was sent, nothing else was done
  (no refresh, no retry), and the client is unchanged. When \<open>r\<close> is the answer to the
  replay after a 401 and a successful refresh, the call fails with the same error and ends
  there.
\<close>

theorem other_status_is_client_error:
  assumes status: "\<not> ok r" "status r \<noteq> 401" "status r \<noteq> 403"
  shows "(perform operation c w = (res, c', w')
          \<and> api_requests w' \<noteq> api_requests w
          \<and> (\<forall>req. upstream w (length (api_requests w)) req = Responds r)
          \<longrightarrow> res = Inl (InoreaderClientError
                            (''API request failed: '' @ string_of_nat (status r) @ '' ''
                             @ statusText r))
              \<and> (\<exists>e. res = Inl e \<and> is_client_error e
                       \<and> str_includes (message e) (string_of_nat (status r))
                       \<and> str_includes (message e) (statusText r))
              \<and> (\<exists>req. events w' = events w @ [Fetch req])
              \<and> c' = c)
       \<and> (\<not> hasRetriedAuth c
          \<and> fetch w (build_request c verb endpoint params body) = (Responds r1, w1)
          \<and> status r1 = 401
          \<and> tryRefreshToken (c\<lparr>hasRetriedAuth := True\<rparr>) w1 = (True, c2, w2)
          \<and> fetch w2 (build_request c2 verb endpoint params body) = (Responds r, w3)
          \<longrightarrow> request c w verb endpoint params body =
                (Inl (InoreaderClientError
                        (''API request failed: '' @ string_of_nat (status r) @ '' ''
                         @ statusText r)), c2, w3))"
  (is "(?first \<longrightarrow> ?fails) \<and> (?replayed \<longrightarrow> ?fails_again)")
proof (rule conjI)
  show "?first \<longrightarrow> ?fails"
  proof
  assume first: ?first
  let ?m = "''API request failed: '' @ string_of_nat (status r) @ '' '' @ statusText r"
  from first have run: "perform operation c w = (res, c', w')"
    and network: "api_requests w' \<noteq> api_requests w"
    and answer: "\<forall>req. upstream w (length (api_requests w)) req = Responds r"
    by simp_all
  note step = request_other_status_everywhere[OF answer status]
  have main: "res = Inl (InoreaderClientError ?m) \<and> (\<exists>req. events w' = events w @ [Fetch req]) \<and> c' = c"
    using run network
    by (cases operation) (auto simp: operation_defs step split: if_splits)
  have "str_includes ?m (string_of_nat (status r))"
    using str_includes_middle
            [of "''API request failed: ''" "string_of_nat (status r)" "'' '' @ statusText r"]
    by simp
  moreover have "str_includes ?m (statusText r)"
    using str_includes_middle
            [of "''API request failed: '' @ string_of_nat (status r) @ '' ''" "statusText r" "[]"]
    by simp
  ultimately show ?fails using main by simp
  qed
next
  show "?replayed \<longrightarrow> ?fails_again"
  proof
  assume ?replayed
  then have fresh: "\<not> hasRetriedAuth c"
    and f1: "fetch w (build_request c verb endpoint params body) = (Responds r1, w1)"
    and s1: "status r1 = 401"
    and t: "tryRefreshToken (c\<lparr>hasRetriedAuth := True\<rparr>) w1 = (True, c2, w2)"
    and f2: "fetch w2 (build_request c2 verb endpoint params body) = (Responds r, w3)"
    by simp_all
  show ?fails_again
    using request_replay(1)[OF fresh f1 s1 t f2] request_other_status[OF f2 status] by simp
  qed
qed

theorem other_status_is_client_error_witness:
  "fst (perform GetUserInfo sample_client down_world) =
     Inl (InoreaderClientError ''API request failed: 503 Service Unavailable'')
   \<and> events (snd (snd (perform GetUserInfo sample_client down_world))) =
       [Fetch (build_request sample_client ''GET'' ''/user-info'' None None)]
   \<and> fst (request sample_client relapsing_world ''GET'' ''/user-info'' None None) =
       Inl (InoreaderClientError ''API request failed: 503 Service Unavailable'')"
proof -
  let ?p = "perform GetUserInfo sample_client down_world"
  let ?req = "build_request sample_client ''GET'' ''/user-info'' None None"
  have run: "?p = (fst ?p, fst (snd ?p), snd (snd ?p))" by simp
  have answer:
    "\<forall>req. upstream down_world (length (api_requests down_world)) req = Responds unavailable_reply"
    by (simp add: down_world_def)
  have status: "\<not> ok unavailable_reply" "status unavailable_reply \<noteq> 401"
    "status unavailable_reply \<noteq> 403"
    by (simp_all add: ok_def unavailable_reply_def)
  have p: "getUserInfo sample_client down_world =
             (Inl (InoreaderClientError
                     (''API request failed: '' @ string_of_nat (status unavailable_reply) @ '' ''
                      @ statusText unavailable_reply)),
              sample_client, record_event (Fetch ?req) down_world)"
    by (simp add: getUserInfo_def request_other_status_everywhere[OF answer status])
  have network: "api_requests (snd (snd ?p)) \<noteq> api_requests down_world"
    by (simp add: p)
  have e: "events down_world = []" by (simp add: down_world_def sample_world_def)
  have n: "string_of_nat 503 = ''503''" by (simp add: string_of_nat.simps)
  define w1 where "w1 = record_event (Fetch ?req) relapsing_world"
  have "fst (tryRefreshToken (sample_client\<lparr>hasRetriedAuth := True\<rparr>) w1)"
    by (simp add: w1_def relapsing_world_def run_defs sample_defs)
  then obtain c2 w2 where
    t: "tryRefreshToken (sample_client\<lparr>hasRetriedAuth := True\<rparr>) w1 = (True, c2, w2)"
    by (cases "tryRefreshToken (sample_client\<lparr>hasRetriedAuth := True\<rparr>) w1") auto
  define w3 where "w3 = record_event (Fetch (build_request c2 ''GET'' ''/user-info'' None None)) w2"
  have fresh: "\<not> hasRetriedAuth sample_client" by (simp add: sample_client_def)
  have a0: "api_requests relapsing_world = []"
    by (simp add: api_requests_def relapsing_world_def sample_world_def List.map_filter_def)
  have f1: "fetch relapsing_world ?req = (Responds unauthorized_reply, w1)"
    by (simp add: w1_def fetch_def a0) (simp add: relapsing_world_def)
  have s1: "status unauthorized_reply = 401" by (simp add: unauthorized_reply_def)
  have up: "upstream w2 = upstream relapsing_world" and a2: "length (api_requests w2) = 1"
    using tryRefreshToken_effect(3,4)[OF t] by (simp_all add: w1_def a0)
  have f2: "fetch w2 (build_request c2 ''GET'' ''/user-info'' None None)
              = (Responds unavailable_reply, w3)"
    by (simp add: w3_def fetch_def up a2) (simp add: relapsing_world_def)
  show ?thesis
    using other_status_is_client_error
            [OF status, where operation = GetUserInfo and c = sample_client and w = down_world
                and res = "fst ?p" and c' = "fst (snd ?p)" and w' = "snd (snd ?p)"]
          other_status_is_client_error
            [OF status, where c = sample_client and w = relapsing_world and verb = "''GET''"
                and endpoint = "''/user-info''" and params = None and body = None
                and ?r1.0 = unauthorized_reply and ?w1.0 = w1 and ?c2.0 = c2 and ?w2.0 = w2
                and ?w3.0 = w3]
          run network answer e n p fresh f1 s1 t f2
    by (simp add: unavailable_reply_def)
qed

subsection \<open>The three kinds of a successful reply\<close>

text \<open>
  C5. When the answer to a request is 2xx, what \<open>request\<close> does is decided by the
  \<open>content-type\<close> header first, then by the status and the body. If the header contains
  \<open>application/json\<close>, the body is decoded as JSON whatever the status and the body are:
  the result is the decoded JSON body when it decodes, and the call fails with the
  decoder's error when it does not, which is the case of an answer with status 204 or 205
  or an empty body that carries this header. If the header does not contain
  \<open>application/json\<close>, the result is empty when the status is 204 or 205 or the body is
  empty, and the raw text of the body otherwise. The four cases exclude one another and
  leave no 2xx answer out.
\<close>

theorem success_reply_classification:
  assumes "fetch w (build_request c method endpoint params body) = (Responds r, w1)" and "ok r"
  shows "(str_includes (nullish (content_type r) []) ''application/json'' \<and> body_json r = Inr j
            \<longrightarrow> fst (request c w method endpoint params body) = Inr (JsonBody j))
       \<and> (str_includes (nullish (content_type r) []) ''application/json'' \<and> body_json r = Inl e
            \<longrightarrow> fst (request c w method endpoint params body) = Inl e)
       \<and> (\<not> str_includes (nullish (content_type r) []) ''application/json''
            \<and> (status r = 204 \<or> status r = 205 \<or> body_text r = [])
            \<longrightarrow> fst (request c w method endpoint params body) = Inr Empty)
       \<and> (\<not> str_includes (nullish (content_type r) []) ''application/json''
            \<and> status r \<noteq> 204 \<and> status r \<noteq> 205 \<and> body_text r \<noteq> []
            \<longrightarrow> fst (request c w method endpoint params body) = Inr (TextBody (body_text r)))"
  using request_ok[OF assms] by simp

theorem success_reply_classification_witness:
  "fst (request (sample_client\<lparr>accessToken := ''fresh''\<rparr>) sample_world ''GET'' ''/user-info''
          None None)
     = Inr (JsonBody (JNum 42))
   \<and> fst (request sample_client no_content_world ''POST'' ''/edit-tag'' None
            (Some (RecordBody [(''a'', ''user/-/state/com.google/starred''), (''i'', ''item1'')])))
     = Inr Empty"
proof -
  let ?c = "sample_client\<lparr>accessToken := ''fresh''\<rparr>"
  let ?b = "Some (RecordBody [(''a'', ''user/-/state/com.google/starred''), (''i'', ''item1'')])"
  have f: "fetch sample_world (build_request ?c ''GET'' ''/user-info'' None None)
             = (Responds number_reply,
                record_event (Fetch (build_request ?c ''GET'' ''/user-info'' None None)) sample_world)"
    by (simp add: fetch_def build_request_def sample_defs)
  have k: "ok number_reply" by (simp add: ok_def number_reply_def)
  have ct: "str_includes (nullish (content_type number_reply) []) ''application/json''"
    by (simp add: number_reply_def nullish_def)
  have j: "body_json number_reply = Inr (JNum 42)" by (simp add: number_reply_def)
  have f': "fetch no_content_world (build_request sample_client ''POST'' ''/edit-tag'' None ?b)
              = (Responds no_content_reply,
                 record_event (Fetch (build_request sample_client ''POST'' ''/edit-tag'' None ?b))
                   no_content_world)"
    by (simp add: fetch_def no_content_world_def)
  have k': "ok no_content_reply" by (simp add: ok_def no_content_reply_def)
  have ct': "\<not> str_includes (nullish (content_type no_content_reply) []) ''application/json''"
    by (simp add: no_content_reply_def nullish_def)
  have s': "status no_content_reply = 204" by (simp add: no_content_reply_def)
  show ?thesis
    using success_reply_classification[OF f k, of "JNum 42"] ct j
          success_reply_classification[OF f' k'] ct' s'
    by simp
qed

text \<open>The answer 204 with an empty body and a JSON \<open>content-type\<close> header is a 2xx answer
  with status 204 and an empty body, and the call that receives it does not return the
  empty result: it fails with the error of the JSON decoder.\<close>

theorem no_content_with_json_header_counterexample:
  "ok no_content_json_reply
   \<and> status no_content_json_reply = 204
   \<and> body_text no_content_json_reply = []
   \<and> fst (fetch no_content_json_world
            (build_request sample_client ''POST'' ''/edit-tag'' None
               (Some (RecordBody [(''a'', ''user/-/state/com.google/starred''), (''i'', ''item1'')]))))
       = Responds no_content_json_reply
   \<and> fst (request sample_client no_content_json_world ''POST'' ''/edit-tag'' None
            (Some (RecordBody [(''a'', ''user/-/state/com.google/starred''), (''i'', ''item1'')])))
       = Inl (RuntimeError ''SyntaxError'' ''Unexpected end of JSON input'')
   \<and> fst (request sample_client no_content_json_world ''POST'' ''/edit-tag'' None
            (Some (RecordBody [(''a'', ''user/-/state/com.google/starred''), (''i'', ''item1'')])))
       \<noteq> Inr Empty"
proof -
  let ?b = "Some (RecordBody [(''a'', ''user/-/state/com.google/starred''), (''i'', ''item1'')])"
  have f: "fetch no_content_json_world (build_request sample_client ''POST'' ''/edit-tag'' None ?b)
             = (Responds no_content_json_reply,
                record_event (Fetch (build_request sample_client ''POST'' ''/edit-tag'' None ?b))
                  no_content_json_world)"
    by (simp add: fetch_def no_content_json_world_def)
  have k: "ok no_content_json_reply"
    by (simp add: ok_def no_content_json_reply_def no_content_reply_def)
  have r: "fst (request sample_client no_content_json_world ''POST'' ''/edit-tag'' None ?b)
             = Inl (RuntimeError ''SyntaxError'' ''Unexpected end of JSON input'')"
    using request_ok[OF f k]
    by (simp add: no_content_json_reply_def no_content_reply_def nullish_def)
  show ?thesis
    using f k r by (simp add: no_content_json_reply_def no_content_reply_def)
qed

subsection \<open>The page size of a stream page\<close>

lemma map_of_fold_update:
  "map_of (fold (\<lambda>(key, v) q. AList.update key v q) entries q0) k =
     (case map_of (rev entries) k of Some v \<Rightarrow> Some v | None \<Rightarrow> map_of q0 k)"
proof (induction entries arbitrary: q0)
  case Nil
  show ?case by simp
next
  case (Cons e entries)
  obtain a b where e: "e = (a, b)" by (cases e)
  show ?case
    by (simp add: Cons.IH e AList.update_conv' map_add_def split: option.splits)
qed

lemma stream_params_n:
  "map_of (rev (stream_params options)) ''n'' =
     Some (string_of_int (min (nullish (count options) 20) 1000))"
  by (simp add: stream_params_def)

text \<open>What the client does on its own: every request of \<open>getStreamContents\<close> carries
  \<open>n = String(Math.min(count ?? 20, 1000))\<close>.\<close>

lemma getStreamContents_page_size:
  "sends_page_size w (snd (snd (getStreamContents c w streamId options)))
     (string_of_int (min (nullish (count options) 20) 1000))"
proof -
  let ?e = "''/stream/contents/'' @ encodeURIComponent streamId"
  let ?p = "Some (stream_params options)"
  obtain reqs where
    a: "api_requests (snd (snd (request c w ''GET'' ?e ?p None))) = api_requests w @ reqs"
    and ne: "reqs \<noteq> []"
    and q: "\<forall>q\<in>set reqs. req_query q = req_query (build_request c ''GET'' ?e ?p None)"
    using request_sends[of c w "''GET''" ?e ?p None] by blast
  have "page_size (build_request c ''GET'' ?e ?p None)
          = Some (string_of_int (min (nullish (count options) 20) 1000))"
    by (simp add: page_size_def build_request_def map_of_fold_update stream_params_n)
  then have "\<forall>q\<in>set reqs. page_size q = Some (string_of_int (min (nullish (count options) 20) 1000))"
    using q by (simp add: page_size_def)
  then show ?thesis
    using a ne by (simp add: sends_page_size_def sent_during_def getStreamContents_def list_all_iff)
qed

text \<open>
  C6. Every request that \<open>getStreamContents\<close> sends carries the page size \<open>n\<close>: \<open>20\<close> when
  no count is given, and for a count of at least 1 the count clamped to the range from 1 to
  1000; a count of 5000 is sent as \<open>1000\<close>. The lower bound is the schema's: the tool
  \<open>get_articles\<close> refuses a count below 1 before the handler and the client run, and every
  count the schema lets through is at least 1 (and at most 100).
\<close>

theorem page_size_is_clamped:
  "(count options = None
      \<longrightarrow> sends_page_size w (snd (snd (getStreamContents c w streamId options))) ''20'')
   \<and> (\<forall>k. count options = Some k \<and> 1 \<le> k
      \<longrightarrow> sends_page_size w (snd (snd (getStreamContents c w streamId options)))
            (string_of_int (max 1 (min k 1000))))
   \<and> (count options = Some 5000
      \<longrightarrow> sends_page_size w (snd (snd (getStreamContents c w streamId options))) ''1000'')
   \<and> (k < 1 \<longrightarrow> get_articles stream_id (Some k) unread_only c w = Inl too_small)
   \<and> (count_schema v = Inr k \<longrightarrow> 1 \<le> k \<and> k \<le> 100)"
proof -
  note s = getStreamContents_page_size[of w c streamId options]
  have n20: "string_of_int 20 = ''20''" and n1000: "string_of_int 1000 = ''1000''"
    by (simp_all add: string_of_int_def string_of_nat.simps)
  have a: "count options = None
      \<longrightarrow> sends_page_size w (snd (snd (getStreamContents c w streamId options))) ''20''"
    using s n20 by (auto simp: nullish_def)
  have b: "\<forall>k. count options = Some k \<and> 1 \<le> k
      \<longrightarrow> sends_page_size w (snd (snd (getStreamContents c w streamId options)))
            (string_of_int (max 1 (min k 1000)))"
    using s by (auto simp: nullish_def max_def min_def)
  have c: "count options = Some 5000
      \<longrightarrow> sends_page_size w (snd (snd (getStreamContents c w streamId options))) ''1000''"
    using s n1000 by (auto simp: nullish_def)
  have d: "k < 1 \<longrightarrow> get_articles stream_id (Some k) unread_only c w = Inl too_small"
    by (simp add: get_articles_def count_schema_def)
  have e: "count_schema v = Inr k \<longrightarrow> 1 \<le> k \<and> k \<le> 100"
    by (auto simp: count_schema_def split: option.splits if_splits)
  show ?thesis using a b c d e by blast
qed

theorem page_size_is_clamped_witness:
  "sends_page_size sample_world
     (snd (snd (getStreamContents sample_client sample_world ''feed/1''
                  \<lparr> count = Some 5000, continuation = None, excludeTarget = None,
                    includeAllItems = None \<rparr>))) ''1000''
   \<and> sends_page_size sample_world
       (snd (snd (getStreamContents sample_client sample_world ''feed/1''
                    \<lparr> count = Some 50, continuation = None, excludeTarget = None,
                      includeAllItems = None \<rparr>))) ''50''
   \<and> sends_page_size sample_world
       (snd (snd (getStreamContents sample_client sample_world ''feed/1''
                    \<lparr> count = None, continuation = None, excludeTarget = None,
                      includeAllItems = None \<rparr>))) ''20''
   \<and> get_articles None (Some 0) None sample_client sample_world = Inl too_small
   \<and> count_schema (Some 100) = Inr 100"
proof -
  have v: "count_schema (Some 100) = Inr 100" by (simp add: count_schema_def)
  have n50: "string_of_int 50 = ''50''" by (simp add: string_of_int_def string_of_nat.simps)
  show ?thesis
    using page_size_is_clamped
      [of "\<lparr> count = Some 5000, continuation = None, excludeTarget = None, includeAllItems = None \<rparr>"
          sample_world sample_client "''feed/1''" 0 None None "Some 100"]
      page_size_is_clamped
      [of "\<lparr> count = Some 50, continuation = None, excludeTarget = None, includeAllItems = None \<rparr>"
          sample_world sample_client "''feed/1''" 0 None None "Some 100"]
      page_size_is_clamped
      [of "\<lparr> count = None, continuation = None, excludeTarget = None, includeAllItems = None \<rparr>"
          sample_world sample_client "''feed/1''" 0 None None "Some 100"]
      v n50
    by simp
qed

subsection \<open>Local validation of \<^verbatim>\<open>editSubscription\<close>\<close>

text \<open>
  C7. \<open>editSubscription\<close> with none of title, add-folder and remove-folder supplied fails
  with an \<open>InoreaderClientError\<close>, and so does \<open>editSubscription\<close> with an add-folder that
  is supplied and equal to the remove-folder. In both cases the client and the world come
  back unchanged, so no network call was made. An option is supplied when it is defined
  and not the empty string, which is how the code tests it.
\<close>

theorem editSubscription_local_validation:
  "(\<not> truthy (title options) \<and> \<not> truthy (addToFolder options) \<and> \<not> truthy (removeFromFolder options)
      \<longrightarrow> editSubscription c w subscriptionId options =
            (Inl (InoreaderClientError
                    ''At least one option (title, addToFolder, or removeFromFolder) is required''), c, w))
   \<and> (truthy (addToFolder options) \<and> addToFolder options = removeFromFolder options
      \<longrightarrow> editSubscription c w subscriptionId options =
            (Inl (InoreaderClientError ''Cannot add and remove from the same folder''), c, w))"
  by (auto simp add: editSubscription_def)

theorem editSubscription_local_validation_witness:
  "editSubscription sample_client sample_world ''feed/1''
        \<lparr> title = None, addToFolder = None, removeFromFolder = Some [] \<rparr> =
     (Inl (InoreaderClientError
             ''At least one option (title, addToFolder, or removeFromFolder) is required''),
      sample_client, sample_world)
   \<and> editSubscription sample_client sample_world ''feed/1''
        \<lparr> title = Some ''News'', addToFolder = Some ''Tech'', removeFromFolder = Some ''Tech'' \<rparr> =
     (Inl (InoreaderClientError ''Cannot add and remove from the same folder''),
      sample_client, sample_world)"
  using editSubscription_local_validation
          [of "\<lparr> title = None, addToFolder = None, removeFromFolder = Some [] \<rparr>"
              sample_client sample_world "''feed/1''"]
        editSubscription_local_validation
          [of "\<lparr> title = Some ''News'', addToFolder = Some ''Tech'', removeFromFolder = Some ''Tech'' \<rparr>"
              sample_client sample_world "''feed/1''"]
  by (simp add: truthy_def)

subsection \<open>Marking unread with no ids\<close>

text \<open>
  C8. \<open>markAsUnread\<close> with an empty id list returns successfully with the client and the
  world unchanged, so no network call was made. The tool \<open>mark_as_unread\<close> with an empty
  id list, once \<open>getClient\<close> has given it a client, does nothing beyond that and answers
  with success and the message \<open>Marked 0 items as unread\<close>; when the client exists already
  the world is unchanged altogether.
\<close>

theorem mark_unread_empty_is_noop:
  "markAsUnread c w [] = (Inr (), c, w)
   \<and> (getClient client w = (Inr c, client1, w1)
      \<longrightarrow> mark_as_unread [] client w =
            (\<lparr> payload = JObj [(''success'', JBool True),
                               (''message'', JStr ''Marked 0 items as unread'')],
               isError = False \<rparr>, Some c, w1))
   \<and> mark_as_unread [] (Some c) w =
       (\<lparr> payload = JObj [(''success'', JBool True),
                          (''message'', JStr ''Marked 0 items as unread'')],
          isError = False \<rparr>, Some c, w)"
  by (auto simp add: markAsUnread_def mark_as_unread_def getClient_def string_of_nat.simps)

theorem mark_unread_empty_is_noop_witness:
  "mark_as_unread [] (Some sample_client) sample_world =
     (\<lparr> payload = JObj [(''success'', JBool True), (''message'', JStr ''Marked 0 items as unread'')],
        isError = False \<rparr>, Some sample_client, sample_world)
   \<and> getClient (Some sample_client) sample_world = (Inr sample_client, Some sample_client, sample_world)"
proof -
  have g: "getClient (Some sample_client) sample_world
             = (Inr sample_client, Some sample_client, sample_world)"
    by (simp add: getClient_def)
  have "getClient (Some sample_client) sample_world
          = (Inr sample_client, Some sample_client, sample_world)
        \<longrightarrow> mark_as_unread [] (Some sample_client) sample_world =
            (\<lparr> payload = JObj [(''success'', JBool True),
                               (''message'', JStr ''Marked 0 items as unread'')],
               isError = False \<rparr>, Some sample_client, sample_world)"
    using mark_unread_empty_is_noop
            [of sample_client sample_world "Some sample_client" "Some sample_client" sample_world]
    by blast
  with g show ?thesis by blast
qed

subsection \<open>Marking read\<close>

text \<open>
  C10. \<open>markAsRead\<close> with no stream id (absent or empty) and an id list that is absent or
  empty returns successfully with the client and the world unchanged: no network call and
  no error. With a non-empty id list the stream id and the timestamp play no part: the
  call is the one \<open>POST /edit-tag\<close> that adds the read state to the ids, whatever the
  other two arguments are.
\<close>

theorem markAsRead_noop_and_ids_take_precedence:
  "(\<not> truthy streamId \<and> (itemIds = None \<or> itemIds = Some [])
      \<longrightarrow> markAsRead c w itemIds streamId timestamp = (Inr (), c, w))
   \<and> (ids \<noteq> []
      \<longrightarrow> markAsRead c w (Some ids) streamId timestamp = markAsRead c w (Some ids) None None
          \<and> markAsRead c w (Some ids) streamId timestamp =
              void (request c w ''POST'' ''/edit-tag'' None
                      (Some (SearchParams
                         ((''a'', ''user/-/state/com.google/read'') # map (\<lambda>i. (''i'', i)) ids)))))"
  by (auto simp add: markAsRead_def nullish_def)

theorem markAsRead_noop_and_ids_take_precedence_witness:
  "markAsRead sample_client sample_world (Some []) (Some []) (Some 7)
     = (Inr (), sample_client, sample_world)
   \<and> markAsRead sample_client sample_world None None None = (Inr (), sample_client, sample_world)
   \<and> markAsRead sample_client sample_world (Some [''a'', ''b'']) (Some ''feed/1'') (Some 7)
       = markAsRead sample_client sample_world (Some [''a'', ''b'']) None None"
  using markAsRead_noop_and_ids_take_precedence
          [of "Some []" "Some []" sample_client sample_world "Some 7" "[''a'', ''b'']"]
        markAsRead_noop_and_ids_take_precedence
          [of None None sample_client sample_world None "[''a'', ''b'']"]
        markAsRead_noop_and_ids_take_precedence
          [of "Some ''feed/1''" None sample_client sample_world "Some 7" "[''a'', ''b'']"]
  by (simp add: truthy_def)

subsection \<open>Article formatting\<close>

text \<open>
  C9. For every article, \<open>formatArticle\<close> sets \<open>isRead\<close> to true exactly when the category
  list contains the "read" state marker and \<open>isStarred\<close> exactly when it contains the
  "starred" marker. A summary longer than 500 characters becomes its first 500 characters
  followed by \<open>...\<close>; a summary of 1 to 500 characters is copied unchanged; an absent or
  empty summary leaves the key unset.
\<close>

theorem formatArticle_flags_and_summary:
  "isRead (formatArticle item) = (''user/-/state/com.google/read'' \<in> set (categories item))
   \<and> isStarred (formatArticle item) = (''user/-/state/com.google/starred'' \<in> set (categories item))
   \<and> article_summary (formatArticle item) =
       (case summary item of
          None \<Rightarrow> None
        | Some s \<Rightarrow>
            if 500 < length (content s) then Some (take 500 (content s) @ ''...'')
            else if content s = [] then None
            else Some (content s))"
  by (simp add: formatArticle_def split: option.splits)

theorem formatArticle_flags_and_summary_witness:
  "isRead (formatArticle sample_item) \<and> \<not> isStarred (formatArticle sample_item)
   \<and> article_summary (formatArticle sample_item) = Some (replicate 500 (CHR ''x'') @ ''...'')"
  using formatArticle_flags_and_summary[of sample_item]
  by (simp add: sample_item_def)

end
